theory Spec2Isabelle
  imports Main "HOL-Library.Word"
begin

unbundle bit_operations_syntax

section \<open>The DRM renderer of moonlight-qt (ffmpeg-renderers/drm.cpp)\<close>

text \<open>
  The renderer talks to three outside parties: the kernel's mode-setting interface
  (libdrm), an optional backend renderer that maps frames into DRM PRIME descriptors, and
  the logger. None of them is part of drm.cpp. Every call to them is written into a trace
  of \<open>event\<close>s, in program order, and every value they hand back is read from a record
  \<open>drm_env\<close> of responses, so that a function of the model is a pure function from the
  renderer's fields, the frame and the responses to the new fields and the trace.
\<close>

subsection \<open>Data\<close>

type_synonym uint16_t = "16 word"
type_synonym uint32_t = "32 word"
type_synonym uint64_t = "64 word"

text \<open>SDL_Rect.\<close>

record SDL_Rect =
  rect_x :: int
  rect_y :: int
  rect_w :: int
  rect_h :: int

text \<open>
  drmModePropertyRes and its enum entries; \<open>count_enums\<close> is the length of \<open>enums\<close>.
\<close>

record drm_mode_property_enum =
  enum_value :: uint64_t
  enum_name :: string

record drmModePropertyRes =
  prop_id :: uint32_t
  prop_name :: string
  enums :: "drm_mode_property_enum list"

text \<open>
  AVDRMFrameDescriptor of libavutil/hwcontext_drm.h: \<open>nb_objects\<close>, \<open>nb_layers\<close> and
  \<open>nb_planes\<close> are the lengths of the lists.
\<close>

record AVDRMObjectDescriptor =
  fd :: int
  format_modifier :: uint64_t

record AVDRMPlaneDescriptor =
  object_index :: int
  offset :: int
  pitch :: int

record AVDRMLayerDescriptor =
  format :: uint32_t
  planes :: "AVDRMPlaneDescriptor list"

record AVDRMFrameDescriptor =
  objects :: "AVDRMObjectDescriptor list"
  layers :: "AVDRMLayerDescriptor list"

text \<open>
  The fields of an AVFrame the renderer reads. \<open>getFrameColorspace\<close> and
  \<open>isFrameFullRange\<close> belong to the base class IFFmpegRenderer, which is not in drm.cpp;
  what they return for the frame is kept in the frame. \<open>drm_prime\<close> is the descriptor
  behind \<open>frame->data[0]\<close> when the frame's format is AV_PIX_FMT_DRM_PRIME.
\<close>

record AVFrame =
  width :: int
  height :: int
  getFrameColorspace :: int
  isFrameFullRange :: bool
  drm_prime :: "AVDRMFrameDescriptor option"

text \<open>
  Modelled from the spec: the constants COLORSPACE_REC_601, COLORSPACE_REC_709 and
  COLORSPACE_REC_2020 are declared in Limelight.h, which is not among the sources. The
  spec names the three known colorspaces BT.601, BT.709 and BT.2020 beside "unknown";
  they are three different integers, here those of Limelight.h. The theorems about all
  frames use the names only.
\<close>

definition COLORSPACE_REC_601 :: int where "COLORSPACE_REC_601 = 0"
definition COLORSPACE_REC_709 :: int where "COLORSPACE_REC_709 = 1"
definition COLORSPACE_REC_2020 :: int where "COLORSPACE_REC_2020 = 2"

text \<open>
  Constants of libdrm's drm_fourcc.h and drm_mode.h: the modifier that stands for "no
  modifier", and the flag that tells drmModeAddFB2WithModifiers to read the modifiers.
\<close>

definition DRM_FORMAT_MOD_INVALID :: uint64_t where
  "DRM_FORMAT_MOD_INVALID = 0x00ffffffffffffff"

definition DRM_MODE_FB_MODIFIERS :: uint32_t where
  "DRM_MODE_FB_MODIFIERS = 2"

datatype drm_object_type = DRM_MODE_OBJECT_CONNECTOR | DRM_MODE_OBJECT_PLANE

text \<open>SS_HDR_METADATA of Limelight.h and the kernel's hdr_output_metadata.\<close>

record SS_HDR_METADATA =
  displayPrimaries :: "(uint16_t \<times> uint16_t) list"
  whitePoint :: "uint16_t \<times> uint16_t"
  maxDisplayLuminance :: uint16_t
  minDisplayLuminance :: uint16_t
  maxContentLightLevel :: uint16_t
  maxFrameAverageLightLevel :: uint16_t

record hdr_output_metadata =
  metadata_type :: uint32_t
  hdmi_eotf :: "8 word"
  hdmi_metadata_type :: "8 word"
  display_primaries :: "(uint16_t \<times> uint16_t) list"
  white_point :: "uint16_t \<times> uint16_t"
  max_display_mastering_luminance :: uint16_t
  min_display_mastering_luminance :: uint16_t
  max_cll :: uint16_t
  max_fall :: uint16_t

text \<open>The member variables of DrmRenderer. \<open>m_BackendRenderer\<close> is true when the
  pointer is not null; a property pointer is \<open>None\<close> when it is null.\<close>

record DrmRenderer =
  m_BackendRenderer :: bool
  m_DrmFd :: int
  m_SdlOwnsDrmFd :: bool
  m_SupportsDirectRendering :: bool
  m_Main10Hdr :: bool
  m_ConnectorId :: uint32_t
  m_EncoderId :: uint32_t
  m_CrtcId :: uint32_t
  m_PlaneId :: uint32_t
  m_CurrentFbId :: uint32_t
  m_LastFullRange :: bool
  m_LastColorSpace :: int
  m_ColorEncodingProp :: "drmModePropertyRes option"
  m_ColorRangeProp :: "drmModePropertyRes option"
  m_HdrOutputMetadataProp :: "drmModePropertyRes option"
  m_HdrOutputMetadataBlobId :: uint32_t
  m_OutputRect :: SDL_Rect
  m_EGLExtDmaBuf :: bool

subsection \<open>Calls to the outside, and what the outside answers\<close>

text \<open>The arguments of drmModeAddFB2WithModifiers and of drmModeSetPlane.\<close>

record fb_request =
  fb_width :: int
  fb_height :: int
  fb_format :: uint32_t
  fb_handles :: "uint32_t list"
  fb_pitches :: "uint32_t list"
  fb_offsets :: "uint32_t list"
  fb_modifiers :: "uint64_t list option"
  fb_flags :: uint32_t

record plane_request =
  sp_plane_id :: uint32_t
  sp_crtc_id :: uint32_t
  sp_fb_id :: uint32_t
  sp_dst :: SDL_Rect
  sp_src_w :: uint32_t
  sp_src_h :: uint32_t

datatype log_priority = LogInfo | LogWarn | LogError

text \<open>
  One event per call, with the arguments that matter and, where the caller looks at it,
  the answer: the error code, and the identifier written through the out-parameter.
  A log event carries the format string and its string arguments (errno is left out).
\<close>

datatype event =
    MapDrmPrimeFrame bool
  | UnmapDrmPrimeFrame
  | DrmPrimeFDToHandle int int
  | DrmModeAddFB2WithModifiers fb_request int uint32_t
  | DrmModeRmFB uint32_t
  | DrmModeSetPlane plane_request int
  | DrmModeObjectSetProperty uint32_t drm_object_type uint32_t uint64_t int
  | DrmModeCreatePropertyBlob hdr_output_metadata int uint32_t
  | DrmModeDestroyPropertyBlob uint32_t
  | SDL_Log log_priority string "string list"

text \<open>
  The answers of the outside during one call of a member function.
  \<^item> \<open>mapDrmPrimeFrame_r\<close>: the descriptor the backend maps the frame to, \<open>None\<close> when
    it returns false;
  \<^item> \<open>drmPrimeFDToHandle_r i\<close>: error code and handle of the call for plane \<open>i\<close>;
  \<^item> \<open>drmModeAddFB2WithModifiers_r\<close>, \<open>drmModeCreatePropertyBlob_r\<close>: error code and
    the identifier written through the out-parameter. The model stores the identifier also
    when the call fails, which covers a library that leaves the out-parameter alone (the
    answer then repeats the old value) and one that does not;
  \<^item> \<open>drmModeObjectSetProperty_r obj prop v\<close>, \<open>drmModeSetPlane_r\<close>: error code;
  \<^item> \<open>LiGetHdrMetadata_r\<close>: the session's HDR metadata, \<open>None\<close> when there is none;
  \<^item> \<open>scaleSourceToDestinationSurface_r src dst\<close>: the destination rectangle computed by
    StreamUtils.
\<close>

record drm_env =
  mapDrmPrimeFrame_r :: "AVDRMFrameDescriptor option"
  canExportDrmPrime_r :: bool
  drmPrimeFDToHandle_r :: "nat \<Rightarrow> int \<times> uint32_t"
  drmModeAddFB2WithModifiers_r :: "int \<times> uint32_t"
  drmModeObjectSetProperty_r :: "uint32_t \<Rightarrow> uint32_t \<Rightarrow> uint64_t \<Rightarrow> int"
  drmModeSetPlane_r :: int
  drmModeCreatePropertyBlob_r :: "int \<times> uint32_t"
  LiGetHdrMetadata_r :: "SS_HDR_METADATA option"
  scaleSourceToDestinationSurface_r :: "SDL_Rect \<Rightarrow> SDL_Rect \<Rightarrow> SDL_Rect"

subsection \<open>Construction and initialization\<close>

text \<open>The constructor's initializer list. The constructor does not initialize the output
  rectangle and the EGL members it sets are reduced to \<open>m_EGLExtDmaBuf\<close>.\<close>

definition DrmRenderer_new :: "bool \<Rightarrow> DrmRenderer" where
  "DrmRenderer_new backendRenderer =
     \<lparr> m_BackendRenderer = backendRenderer,
       m_DrmFd = - 1,
       m_SdlOwnsDrmFd = False,
       m_SupportsDirectRendering = False,
       m_Main10Hdr = False,
       m_ConnectorId = 0,
       m_EncoderId = 0,
       m_CrtcId = 0,
       m_PlaneId = 0,
       m_CurrentFbId = 0,
       m_LastFullRange = False,
       m_LastColorSpace = - 1,
       m_ColorEncodingProp = None,
       m_ColorRangeProp = None,
       m_HdrOutputMetadataProp = None,
       m_HdrOutputMetadataBlobId = 0,
       m_OutputRect = \<lparr> rect_x = 0, rect_y = 0, rect_w = 0, rect_h = 0 \<rparr>,
       m_EGLExtDmaBuf = False \<rparr>"

text \<open>
  \<open>DrmRenderer::initialize\<close>: the body is the single statement \<open>return false\<close>. The
  result is the returned flag and the renderer, which no statement touches.
\<close>

definition initialize :: "DrmRenderer \<Rightarrow> 'params \<Rightarrow> bool \<times> DrmRenderer" where
  "initialize s params = (False, s)"

subsection \<open>HDR mode\<close>

text \<open>The metadata structure filled in by \<open>setHdrMode\<close>; a missing session metadata is
  all zeros (the memset).\<close>

definition zero_SS_HDR_METADATA :: SS_HDR_METADATA where
  "zero_SS_HDR_METADATA =
     \<lparr> displayPrimaries = [(0, 0), (0, 0), (0, 0)],
       whitePoint = (0, 0),
       maxDisplayLuminance = 0,
       minDisplayLuminance = 0,
       maxContentLightLevel = 0,
       maxFrameAverageLightLevel = 0 \<rparr>"

definition outputMetadata :: "SS_HDR_METADATA \<Rightarrow> hdr_output_metadata" where
  "outputMetadata m =
     \<lparr> metadata_type = 0,
       hdmi_eotf = 2,
       hdmi_metadata_type = 0,
       display_primaries = take 3 (displayPrimaries m),
       white_point = whitePoint m,
       max_display_mastering_luminance = maxDisplayLuminance m,
       min_display_mastering_luminance = minDisplayLuminance m,
       max_cll = maxContentLightLevel m,
       max_fall = maxFrameAverageLightLevel m \<rparr>"

text \<open>
  \<open>DrmRenderer::setHdrMode\<close>. With the property: destroy the blob there is, create one
  when enabling (a failure leaves the identifier 0), write the property, log the outcome.
  Without the property: a warning when enabling, nothing otherwise.
\<close>

definition setHdrMode :: "drm_env \<Rightarrow> DrmRenderer \<Rightarrow> bool \<Rightarrow> DrmRenderer \<times> event list" where
  "setHdrMode env s enabled =
     (case m_HdrOutputMetadataProp s of
        Some prop \<Rightarrow>
          (let (s1, t1) =
                 (if m_HdrOutputMetadataBlobId s \<noteq> 0
                  then (s\<lparr>m_HdrOutputMetadataBlobId := 0\<rparr>,
                        [DrmModeDestroyPropertyBlob (m_HdrOutputMetadataBlobId s)])
                  else (s, []));
               (s2, t2) =
                 (if enabled
                  then (let sunshineHdrMetadata =
                              (case LiGetHdrMetadata_r env of
                                 Some m \<Rightarrow> m
                               | None \<Rightarrow> zero_SS_HDR_METADATA);
                            (err, blob) = drmModeCreatePropertyBlob_r env;
                            call = DrmModeCreatePropertyBlob
                                     (outputMetadata sunshineHdrMetadata) err blob
                        in if err < 0
                           then (s1\<lparr>m_HdrOutputMetadataBlobId := 0\<rparr>,
                                 t1 @ [call,
                                       SDL_Log LogError
                                         ''drmModeCreatePropertyBlob() failed: %d'' []])
                           else (s1\<lparr>m_HdrOutputMetadataBlobId := blob\<rparr>, t1 @ [call]))
                  else (s1, t1));
               v = (if enabled then ucast (m_HdrOutputMetadataBlobId s2) else 0);
               err = drmModeObjectSetProperty_r env (m_ConnectorId s2) (prop_id prop) v
           in (s2,
               t2 @ [DrmModeObjectSetProperty (m_ConnectorId s2) DRM_MODE_OBJECT_CONNECTOR
                       (prop_id prop) v err,
                     if err = 0
                     then SDL_Log LogInfo ''Set display HDR mode: %s''
                            [if enabled then ''enabled'' else ''disabled'']
                     else SDL_Log LogError ''drmModeObjectSetProperty(%s) failed: %d''
                            [prop_name prop]]))
      | None \<Rightarrow>
          (if enabled
           then (s, [SDL_Log LogWarn
                       ''HDR_OUTPUT_METADATA is unavailable on this display. Unable to enter HDR mode!''
                       []])
           else (s, [])))"

subsection \<open>Rendering a frame\<close>

text \<open>\<open>getDrmColorEncodingValue\<close> and \<open>getDrmColorRangeValue\<close>; \<open>None\<close> is NULL.\<close>

definition getDrmColorEncodingValue :: "AVFrame \<Rightarrow> string option" where
  "getDrmColorEncodingValue frame =
     (if getFrameColorspace frame = COLORSPACE_REC_601 then Some ''ITU-R BT.601 YCbCr''
      else if getFrameColorspace frame = COLORSPACE_REC_709 then Some ''ITU-R BT.709 YCbCr''
      else if getFrameColorspace frame = COLORSPACE_REC_2020 then Some ''ITU-R BT.2020 YCbCr''
      else None)"

definition getDrmColorRangeValue :: "AVFrame \<Rightarrow> string option" where
  "getDrmColorRangeValue frame =
     Some (if isFrameFullRange frame then ''YCbCr full range'' else ''YCbCr limited range'')"

text \<open>
  The local arrays of \<open>renderFrame\<close>, four entries each and zero at the start, and the
  flags.
\<close>

record fb_arrays =
  handles :: "uint32_t list"
  pitches :: "uint32_t list"
  offsets :: "uint32_t list"
  modifiers :: "uint64_t list"
  flags :: uint32_t

definition fb_arrays_init :: fb_arrays where
  "fb_arrays_init =
     \<lparr> handles = [0, 0, 0, 0], pitches = [0, 0, 0, 0], offsets = [0, 0, 0, 0],
       modifiers = [0, 0, 0, 0], flags = 0 \<rparr>"

text \<open>
  What one round of the plane loop stores once the handle of plane \<open>i\<close> is resolved:
  handle, pitch, offset and modifier at index \<open>i\<close>, and the modifier flag when the
  object's modifier is not DRM_FORMAT_MOD_INVALID.
\<close>

definition store_plane ::
  "nat \<Rightarrow> uint32_t \<Rightarrow> AVDRMPlaneDescriptor \<Rightarrow> AVDRMObjectDescriptor \<Rightarrow> fb_arrays \<Rightarrow> fb_arrays" where
  "store_plane i handle plane object a =
     a\<lparr> handles := (handles a)[i := handle],
        pitches := (pitches a)[i := word_of_int (pitch plane)],
        offsets := (offsets a)[i := word_of_int (offset plane)],
        modifiers := (modifiers a)[i := format_modifier object],
        flags := (if format_modifier object \<noteq> DRM_FORMAT_MOD_INVALID
                  then flags a OR DRM_MODE_FB_MODIFIERS
                  else flags a) \<rparr>"

text \<open>
  The loop over the planes of the layer, from plane \<open>i\<close> on. The result is \<open>None\<close>
  where the C++ has no defined behaviour: a fifth plane (the arrays have four entries) or
  an object index outside the descriptor's objects. Otherwise it is the trace of the loop
  and either the filled arrays or, when a handle cannot be resolved, \<open>None\<close>: the loop
  has then logged the error, unmapped the frame if there is a backend, and the function
  returns.
\<close>

fun resolvePlanes ::
  "drm_env \<Rightarrow> bool \<Rightarrow> AVDRMObjectDescriptor list \<Rightarrow> AVDRMPlaneDescriptor list \<Rightarrow> nat
     \<Rightarrow> fb_arrays \<Rightarrow> (fb_arrays option \<times> event list) option" where
  "resolvePlanes env backend objs [] i a = Some (Some a, [])"
| "resolvePlanes env backend objs (plane # ps) i a =
     (if 4 \<le> i \<or> object_index plane < 0 \<or> int (length objs) \<le> object_index plane
      then None
      else
        (let object = objs ! nat (object_index plane);
             (err, handle) = drmPrimeFDToHandle_r env i;
             call = DrmPrimeFDToHandle (fd object) err
         in if err < 0
            then Some (None,
                       [call, SDL_Log LogError ''drmPrimeFDToHandle() failed: %d'' []]
                       @ (if backend then [UnmapDrmPrimeFrame] else []))
            else
              (case resolvePlanes env backend objs ps (Suc i)
                      (store_plane i handle plane object a) of
                 None \<Rightarrow> None
               | Some (r, t) \<Rightarrow> Some (r, call # t))))"

text \<open>
  The search for the enum entry named \<open>desiredValue\<close> and the property write, which
  \<open>renderFrame\<close> spells out twice, for COLOR_RANGE and for COLOR_ENCODING (\<open>what\<close>):
  the first entry with that name is written and the loop left; when the loop runs to its
  end, a warning is logged.
\<close>

definition setPlaneProperty ::
  "drm_env \<Rightarrow> DrmRenderer \<Rightarrow> drmModePropertyRes \<Rightarrow> string \<Rightarrow> string \<Rightarrow> event list" where
  "setPlaneProperty env s prop desiredValue what =
     (case find (\<lambda>e. enum_name e = desiredValue) (enums prop) of
        Some e \<Rightarrow>
          (let err = drmModeObjectSetProperty_r env (m_PlaneId s) (prop_id prop) (enum_value e)
           in [DrmModeObjectSetProperty (m_PlaneId s) DRM_MODE_OBJECT_PLANE (prop_id prop)
                 (enum_value e) err,
               if err = 0
               then SDL_Log LogInfo ''%s: %s'' [prop_name prop, desiredValue]
               else SDL_Log LogError ''drmModeObjectSetProperty(%s) failed: %d''
                      [prop_name prop]])
      | None \<Rightarrow>
          [SDL_Log LogWarn
             (''Unable to find matching '' @ what @ '' value for '%s'. Colors may be inaccurate!'')
             [desiredValue]])"

text \<open>The block guarded by \<open>fullRange != m_LastFullRange || colorspace != m_LastColorSpace\<close>.\<close>

definition updateColorRange :: "drm_env \<Rightarrow> DrmRenderer \<Rightarrow> AVFrame \<Rightarrow> DrmRenderer \<times> event list" where
  "updateColorRange env s frame =
     (let colorspace = getFrameColorspace frame;
          fullRange = isFrameFullRange frame
      in if fullRange \<noteq> m_LastFullRange s \<or> colorspace \<noteq> m_LastColorSpace s
         then (s\<lparr>m_LastFullRange := fullRange\<rparr>,
               (case getDrmColorRangeValue frame of
                  None \<Rightarrow> []
                | Some desiredValue \<Rightarrow>
                    (case m_ColorRangeProp s of
                       Some prop \<Rightarrow> setPlaneProperty env s prop desiredValue ''COLOR_RANGE''
                     | None \<Rightarrow>
                         [SDL_Log LogWarn
                            ''COLOR_RANGE property does not exist on output plane. Colors may be inaccurate!''
                            []])))
         else (s, []))"

text \<open>The block guarded by \<open>colorspace != m_LastColorSpace\<close>.\<close>

definition updateColorEncoding :: "drm_env \<Rightarrow> DrmRenderer \<Rightarrow> AVFrame \<Rightarrow> DrmRenderer \<times> event list" where
  "updateColorEncoding env s frame =
     (let colorspace = getFrameColorspace frame
      in if colorspace \<noteq> m_LastColorSpace s
         then (s\<lparr>m_LastColorSpace := colorspace\<rparr>,
               (case getDrmColorEncodingValue frame of
                  None \<Rightarrow> []
                | Some desiredValue \<Rightarrow>
                    (case m_ColorEncodingProp s of
                       Some prop \<Rightarrow> setPlaneProperty env s prop desiredValue ''COLOR_ENCODING''
                     | None \<Rightarrow>
                         [SDL_Log LogWarn
                            ''COLOR_ENCODING property does not exist on output plane. Colors may be inaccurate!''
                            []])))
         else (s, []))"

text \<open>The two blocks one after the other, as \<open>renderFrame\<close> runs them.\<close>

definition updateColorProperties ::
  "drm_env \<Rightarrow> DrmRenderer \<Rightarrow> AVFrame \<Rightarrow> DrmRenderer \<times> event list" where
  "updateColorProperties env s frame =
     (let (s2, t3) = updateColorRange env s frame;
          (s3, t4) = updateColorEncoding env s2 frame
      in (s3, t3 @ t4))"

text \<open>
  The arguments \<open>renderFrame\<close> passes to drmModeAddFB2WithModifiers (the modifiers only
  when the modifier flag is set) and to drmModeSetPlane (the source rectangle is the whole
  frame, in 16.16 fixed point).
\<close>

definition addFB2_request :: "AVFrame \<Rightarrow> AVDRMLayerDescriptor \<Rightarrow> fb_arrays \<Rightarrow> fb_request" where
  "addFB2_request frame layer a =
     \<lparr> fb_width = width frame, fb_height = height frame,
       fb_format = format layer,
       fb_handles = handles a, fb_pitches = pitches a, fb_offsets = offsets a,
       fb_modifiers = (if flags a AND DRM_MODE_FB_MODIFIERS \<noteq> 0
                       then Some (modifiers a) else None),
       fb_flags = flags a \<rparr>"

definition setPlane_request :: "DrmRenderer \<Rightarrow> AVFrame \<Rightarrow> SDL_Rect \<Rightarrow> plane_request" where
  "setPlane_request s frame dst =
     \<lparr> sp_plane_id = m_PlaneId s,
       sp_crtc_id = m_CrtcId s,
       sp_fb_id = m_CurrentFbId s,
       sp_dst = dst,
       sp_src_w = push_bit 16 (word_of_int (width frame)),
       sp_src_h = push_bit 16 (word_of_int (height frame)) \<rparr>"

text \<open>
  \<open>DrmRenderer::renderFrame\<close>. The result is \<open>None\<close> where an assertion of the source
  fails (no DRM PRIME descriptor in a frame rendered without backend, a number of layers
  other than one) or the plane loop has no defined behaviour; otherwise it is the renderer
  after the call and the trace of the call. The debug output at the start of the function
  is not part of the trace.
\<close>

definition renderFrame :: "drm_env \<Rightarrow> DrmRenderer \<Rightarrow> AVFrame \<Rightarrow> (DrmRenderer \<times> event list) option" where
  "renderFrame env s frame =
     (if m_BackendRenderer s \<and> mapDrmPrimeFrame_r env = None
      then Some (s, [MapDrmPrimeFrame False])
      else
        (case (if m_BackendRenderer s then mapDrmPrimeFrame_r env else drm_prime frame) of
           None \<Rightarrow> None
         | Some drmFrame \<Rightarrow>
             (let t0 = (if m_BackendRenderer s then [MapDrmPrimeFrame True] else []);
                  src = \<lparr> rect_x = 0, rect_y = 0, rect_w = width frame, rect_h = height frame \<rparr>;
                  dst = scaleSourceToDestinationSurface_r env src (m_OutputRect s)
              in case layers drmFrame of
                   [layer] \<Rightarrow>
                     (case resolvePlanes env (m_BackendRenderer s) (objects drmFrame)
                             (planes layer) 0 fb_arrays_init of
                        None \<Rightarrow> None
                      | Some (None, t1) \<Rightarrow> Some (s, t0 @ t1)
                      | Some (Some a, t1) \<Rightarrow>
                          (let lastFbId = m_CurrentFbId s;
                               (err, fb) = drmModeAddFB2WithModifiers_r env;
                               s1 = s\<lparr>m_CurrentFbId := fb\<rparr>;
                               t2 = t0 @ t1
                                    @ [DrmModeAddFB2WithModifiers
                                         (addFB2_request frame layer a) err fb]
                                    @ (if m_BackendRenderer s then [UnmapDrmPrimeFrame] else [])
                           in if err < 0
                              then Some (s1\<lparr>m_CurrentFbId := lastFbId\<rparr>,
                                         t2 @ [SDL_Log LogError
                                                 ''drmModeAddFB2WithModifiers() failed: %d'' []])
                              else
                                (let (s3, t3) = updateColorProperties env s1 frame;
                                     err = drmModeSetPlane_r env;
                                     call = DrmModeSetPlane (setPlane_request s3 frame dst) err
                                 in if err < 0
                                    then Some (s3\<lparr>m_CurrentFbId := lastFbId\<rparr>,
                                               t2 @ t3
                                               @ [call,
                                                  SDL_Log LogError ''drmModeSetPlane() failed: %d'' [],
                                                  DrmModeRmFB (m_CurrentFbId s3)])
                                    else Some (s3, t2 @ t3 @ [call, DrmModeRmFB lastFbId]))))
                 | _ \<Rightarrow> None)))"

text \<open>
  \<open>DrmRenderer::testRenderFrame\<close>: the returned flag and the trace; \<open>None\<close> where the
  assertion that the backend can export DRM PRIME frames fails.
\<close>

definition testRenderFrame :: "drm_env \<Rightarrow> DrmRenderer \<Rightarrow> AVFrame \<Rightarrow> (bool \<times> event list) option" where
  "testRenderFrame env s frame =
     (if m_BackendRenderer s
      then (if \<not> canExportDrmPrime_r env then None
            else (case mapDrmPrimeFrame_r env of
                    None \<Rightarrow> Some (False, [MapDrmPrimeFrame False])
                  | Some drmDescriptor \<Rightarrow>
                      Some (True, [MapDrmPrimeFrame True, UnmapDrmPrimeFrame])))
      else Some (True, []))"

subsection \<open>The attribute list of the EGL export\<close>

text \<open>Constants of EGL/egl.h and EGL/eglext.h.\<close>

definition EGL_NONE :: int where "EGL_NONE = 0x3038"
definition EGL_HEIGHT :: int where "EGL_HEIGHT = 0x3056"
definition EGL_WIDTH :: int where "EGL_WIDTH = 0x3057"
definition EGL_LINUX_DRM_FOURCC_EXT :: int where "EGL_LINUX_DRM_FOURCC_EXT = 0x3271"
definition EGL_DMA_BUF_PLANE0_FD_EXT :: int where "EGL_DMA_BUF_PLANE0_FD_EXT = 0x3272"
definition EGL_DMA_BUF_PLANE0_OFFSET_EXT :: int where "EGL_DMA_BUF_PLANE0_OFFSET_EXT = 0x3273"
definition EGL_DMA_BUF_PLANE0_PITCH_EXT :: int where "EGL_DMA_BUF_PLANE0_PITCH_EXT = 0x3274"
definition EGL_DMA_BUF_PLANE1_FD_EXT :: int where "EGL_DMA_BUF_PLANE1_FD_EXT = 0x3275"
definition EGL_DMA_BUF_PLANE1_OFFSET_EXT :: int where "EGL_DMA_BUF_PLANE1_OFFSET_EXT = 0x3276"
definition EGL_DMA_BUF_PLANE1_PITCH_EXT :: int where "EGL_DMA_BUF_PLANE1_PITCH_EXT = 0x3277"
definition EGL_DMA_BUF_PLANE2_FD_EXT :: int where "EGL_DMA_BUF_PLANE2_FD_EXT = 0x3278"
definition EGL_DMA_BUF_PLANE2_OFFSET_EXT :: int where "EGL_DMA_BUF_PLANE2_OFFSET_EXT = 0x3279"
definition EGL_DMA_BUF_PLANE2_PITCH_EXT :: int where "EGL_DMA_BUF_PLANE2_PITCH_EXT = 0x327A"
definition EGL_YUV_COLOR_SPACE_HINT_EXT :: int where "EGL_YUV_COLOR_SPACE_HINT_EXT = 0x327B"
definition EGL_SAMPLE_RANGE_HINT_EXT :: int where "EGL_SAMPLE_RANGE_HINT_EXT = 0x327C"
definition EGL_ITU_REC601_EXT :: int where "EGL_ITU_REC601_EXT = 0x327F"
definition EGL_ITU_REC709_EXT :: int where "EGL_ITU_REC709_EXT = 0x3280"
definition EGL_ITU_REC2020_EXT :: int where "EGL_ITU_REC2020_EXT = 0x3281"
definition EGL_YUV_FULL_RANGE_EXT :: int where "EGL_YUV_FULL_RANGE_EXT = 0x3282"
definition EGL_YUV_NARROW_RANGE_EXT :: int where "EGL_YUV_NARROW_RANGE_EXT = 0x3283"
definition EGL_DMA_BUF_PLANE3_FD_EXT :: int where "EGL_DMA_BUF_PLANE3_FD_EXT = 0x3440"
definition EGL_DMA_BUF_PLANE3_OFFSET_EXT :: int where "EGL_DMA_BUF_PLANE3_OFFSET_EXT = 0x3441"
definition EGL_DMA_BUF_PLANE3_PITCH_EXT :: int where "EGL_DMA_BUF_PLANE3_PITCH_EXT = 0x3442"
definition EGL_DMA_BUF_PLANE0_MODIFIER_LO_EXT :: int where "EGL_DMA_BUF_PLANE0_MODIFIER_LO_EXT = 0x3443"
definition EGL_DMA_BUF_PLANE0_MODIFIER_HI_EXT :: int where "EGL_DMA_BUF_PLANE0_MODIFIER_HI_EXT = 0x3444"
definition EGL_DMA_BUF_PLANE1_MODIFIER_LO_EXT :: int where "EGL_DMA_BUF_PLANE1_MODIFIER_LO_EXT = 0x3445"
definition EGL_DMA_BUF_PLANE1_MODIFIER_HI_EXT :: int where "EGL_DMA_BUF_PLANE1_MODIFIER_HI_EXT = 0x3446"
definition EGL_DMA_BUF_PLANE2_MODIFIER_LO_EXT :: int where "EGL_DMA_BUF_PLANE2_MODIFIER_LO_EXT = 0x3447"
definition EGL_DMA_BUF_PLANE2_MODIFIER_HI_EXT :: int where "EGL_DMA_BUF_PLANE2_MODIFIER_HI_EXT = 0x3448"
definition EGL_DMA_BUF_PLANE3_MODIFIER_LO_EXT :: int where "EGL_DMA_BUF_PLANE3_MODIFIER_LO_EXT = 0x3449"
definition EGL_DMA_BUF_PLANE3_MODIFIER_HI_EXT :: int where "EGL_DMA_BUF_PLANE3_MODIFIER_HI_EXT = 0x344A"

text \<open>
  The \<open>switch (i)\<close> of \<open>exportEGLImages\<close> has one case per plane, the same statements
  with the keys of that plane: file descriptor, offset, pitch, modifier low and high word.
  The default case is Q_UNREACHABLE.
\<close>

fun plane_keys :: "nat \<Rightarrow> (int \<times> int \<times> int \<times> int \<times> int) option" where
  "plane_keys 0 =
     Some (EGL_DMA_BUF_PLANE0_FD_EXT, EGL_DMA_BUF_PLANE0_OFFSET_EXT,
           EGL_DMA_BUF_PLANE0_PITCH_EXT, EGL_DMA_BUF_PLANE0_MODIFIER_LO_EXT,
           EGL_DMA_BUF_PLANE0_MODIFIER_HI_EXT)"
| "plane_keys (Suc 0) =
     Some (EGL_DMA_BUF_PLANE1_FD_EXT, EGL_DMA_BUF_PLANE1_OFFSET_EXT,
           EGL_DMA_BUF_PLANE1_PITCH_EXT, EGL_DMA_BUF_PLANE1_MODIFIER_LO_EXT,
           EGL_DMA_BUF_PLANE1_MODIFIER_HI_EXT)"
| "plane_keys (Suc (Suc 0)) =
     Some (EGL_DMA_BUF_PLANE2_FD_EXT, EGL_DMA_BUF_PLANE2_OFFSET_EXT,
           EGL_DMA_BUF_PLANE2_PITCH_EXT, EGL_DMA_BUF_PLANE2_MODIFIER_LO_EXT,
           EGL_DMA_BUF_PLANE2_MODIFIER_HI_EXT)"
| "plane_keys (Suc (Suc (Suc 0))) =
     Some (EGL_DMA_BUF_PLANE3_FD_EXT, EGL_DMA_BUF_PLANE3_OFFSET_EXT,
           EGL_DMA_BUF_PLANE3_PITCH_EXT, EGL_DMA_BUF_PLANE3_MODIFIER_LO_EXT,
           EGL_DMA_BUF_PLANE3_MODIFIER_HI_EXT)"
| "plane_keys (Suc (Suc (Suc (Suc n)))) = None"

text \<open>
  The two halves of a modifier as the source writes them: cut to 32 bits, read as a
  signed EGLint and widened to EGLAttrib.
\<close>

definition modifier_lo :: "uint64_t \<Rightarrow> int" where
  "modifier_lo m = sint (ucast (m AND 0xFFFFFFFF) :: 32 word)"

definition modifier_hi :: "uint64_t \<Rightarrow> int" where
  "modifier_hi m = sint (ucast (drop_bit 32 m) :: 32 word)"

text \<open>
  The loop over the planes, from plane \<open>i\<close> on: the attributes it appends, \<open>None\<close> for
  a fifth plane or an object index outside the descriptor's objects.
\<close>

fun plane_attribs ::
  "bool \<Rightarrow> AVDRMObjectDescriptor list \<Rightarrow> nat \<Rightarrow> AVDRMPlaneDescriptor list \<Rightarrow> int list option" where
  "plane_attribs ext objs i [] = Some []"
| "plane_attribs ext objs i (plane # ps) =
     (if object_index plane < 0 \<or> int (length objs) \<le> object_index plane then None
      else
        (case plane_keys i of
           None \<Rightarrow> None
         | Some (k_fd, k_offset, k_pitch, k_lo, k_hi) \<Rightarrow>
             (let object = objs ! nat (object_index plane);
                  here = [k_fd, fd object, k_offset, offset plane, k_pitch, pitch plane]
                         @ (if ext \<and> format_modifier object \<noteq> DRM_FORMAT_MOD_INVALID
                            then [k_lo, modifier_lo (format_modifier object),
                                  k_hi, modifier_hi (format_modifier object)]
                            else [])
              in (case plane_attribs ext objs (Suc i) ps of
                    None \<Rightarrow> None
                  | Some rest \<Rightarrow> Some (here @ rest)))))"

text \<open>
  The attribute list \<open>exportEGLImages\<close> builds before it creates the image: the entries
  of \<open>attribs\<close> below \<open>attribIndex\<close> when the list has been terminated. The creation of
  the image from the list is an EGL call and is not modelled.
\<close>

definition exportEGLImages_attribs :: "DrmRenderer \<Rightarrow> AVFrame \<Rightarrow> int list option" where
  "exportEGLImages_attribs s frame =
     (case drm_prime frame of
        None \<Rightarrow> None
      | Some drmFrame \<Rightarrow>
          (case layers drmFrame of
             [layer] \<Rightarrow>
               (case plane_attribs (m_EGLExtDmaBuf s) (objects drmFrame) 0 (planes layer) of
                  None \<Rightarrow> None
                | Some ps \<Rightarrow>
                    Some ([EGL_LINUX_DRM_FOURCC_EXT, uint (format layer),
                           EGL_WIDTH, width frame,
                           EGL_HEIGHT, height frame]
                          @ ps
                          @ (if getFrameColorspace frame = COLORSPACE_REC_601
                             then [EGL_YUV_COLOR_SPACE_HINT_EXT, EGL_ITU_REC601_EXT]
                             else if getFrameColorspace frame = COLORSPACE_REC_709
                             then [EGL_YUV_COLOR_SPACE_HINT_EXT, EGL_ITU_REC709_EXT]
                             else if getFrameColorspace frame = COLORSPACE_REC_2020
                             then [EGL_YUV_COLOR_SPACE_HINT_EXT, EGL_ITU_REC2020_EXT]
                             else [])
                          @ [EGL_SAMPLE_RANGE_HINT_EXT,
                             if isFrameFullRange frame then EGL_YUV_FULL_RANGE_EXT
                             else EGL_YUV_NARROW_RANGE_EXT]
                          @ [EGL_NONE]))
           | _ \<Rightarrow> None))"

subsection \<open>Reading a trace\<close>

text \<open>Events that neither create, destroy nor show a framebuffer.\<close>

fun fb_quiet :: "event \<Rightarrow> bool" where
  "fb_quiet (DrmModeAddFB2WithModifiers req err fb) = False"
| "fb_quiet (DrmModeRmFB fb) = False"
| "fb_quiet (DrmModeSetPlane req err) = False"
| "fb_quiet e = True"

text \<open>
  The framebuffers of the device after a trace, from the set \<open>L\<close> before it: a
  successful drmModeAddFB2WithModifiers adds the identifier it returned, drmModeRmFB
  removes one.
\<close>

fun live_fbs :: "uint32_t set \<Rightarrow> event list \<Rightarrow> uint32_t set" where
  "live_fbs L [] = L"
| "live_fbs L (DrmModeAddFB2WithModifiers req err fb # t) =
     live_fbs (if err < 0 then L else insert fb L) t"
| "live_fbs L (DrmModeRmFB fb # t) = live_fbs (L - {fb}) t"
| "live_fbs L (e # t) = live_fbs L t"

text \<open>The framebuffer the plane shows after a trace: that of the last drmModeSetPlane
  which did not fail.\<close>

fun displayed_fb :: "uint32_t \<Rightarrow> event list \<Rightarrow> uint32_t" where
  "displayed_fb d [] = d"
| "displayed_fb d (DrmModeSetPlane req err # t) =
     displayed_fb (if err < 0 then d else sp_fb_id req) t"
| "displayed_fb d (e # t) = displayed_fb d t"

text \<open>
  The property blobs of the device, with repetitions: after one event, after a trace, and
  the largest number of them at any moment of a trace.
\<close>

fun blob_step :: "uint32_t list \<Rightarrow> event \<Rightarrow> uint32_t list" where
  "blob_step B (DrmModeCreatePropertyBlob m err blob) = (if err < 0 then B else blob # B)"
| "blob_step B (DrmModeDestroyPropertyBlob blob) = remove1 blob B"
| "blob_step B e = B"

fun live_blobs :: "uint32_t list \<Rightarrow> event list \<Rightarrow> uint32_t list" where
  "live_blobs B [] = B"
| "live_blobs B (e # t) = live_blobs (blob_step B e) t"

fun peak_blobs :: "uint32_t list \<Rightarrow> event list \<Rightarrow> nat" where
  "peak_blobs B [] = length B"
| "peak_blobs B (e # t) = max (length B) (peak_blobs (blob_step B e) t)"

text \<open>The kinds of event the theorems ask a trace for.\<close>

fun is_RmFB :: "event \<Rightarrow> bool" where
  "is_RmFB (DrmModeRmFB fb) = True"
| "is_RmFB e = False"

fun is_SetPlane :: "event \<Rightarrow> bool" where
  "is_SetPlane (DrmModeSetPlane req err) = True"
| "is_SetPlane e = False"

fun fb_created :: "event \<Rightarrow> bool" where
  "fb_created (DrmModeAddFB2WithModifiers req err fb) = (0 \<le> err)"
| "fb_created e = False"

text \<open>The writes to properties of a plane in a trace: property and value, in order.\<close>

fun plane_property_writes :: "event list \<Rightarrow> (uint32_t \<times> uint64_t) list" where
  "plane_property_writes [] = []"
| "plane_property_writes (DrmModeObjectSetProperty obj DRM_MODE_OBJECT_PLANE p v err # t) =
     (p, v) # plane_property_writes t"
| "plane_property_writes (e # t) = plane_property_writes t"

text \<open>
  The write a property admits for a wanted enum name: the value of the first entry with
  that name, when there is a property, a name and such an entry.
\<close>

definition enum_write :: "drmModePropertyRes option \<Rightarrow> string option \<Rightarrow> (uint32_t \<times> uint64_t) list" where
  "enum_write prop desiredValue =
     (case (prop, desiredValue) of
        (Some p, Some d) \<Rightarrow>
          (case find (\<lambda>e. enum_name e = d) (enums p) of
             Some e \<Rightarrow> [(prop_id p, enum_value e)]
           | None \<Rightarrow> [])
      | _ \<Rightarrow> [])"

text \<open>The framebuffers and blobs a renderer holds: identifier 0 stands for none.\<close>

definition owned_fbs :: "DrmRenderer \<Rightarrow> uint32_t set" where
  "owned_fbs s = (if m_CurrentFbId s = 0 then {} else {m_CurrentFbId s})"

definition owned_blobs :: "DrmRenderer \<Rightarrow> uint32_t list" where
  "owned_blobs s =
     (if m_HdrOutputMetadataBlobId s = 0 then [] else [m_HdrOutputMetadataBlobId s])"

text \<open>
  A descriptor the loops are defined on: one layer, at most four planes, every plane's
  object among the descriptor's objects.
\<close>

definition wf_descriptor :: "AVDRMFrameDescriptor \<Rightarrow> bool" where
  "wf_descriptor d =
     (case layers d of
        [layer] \<Rightarrow>
          length (planes layer) \<le> 4
          \<and> list_all (\<lambda>p. 0 \<le> object_index p \<and> object_index p < int (length (objects d)))
              (planes layer)
      | _ \<Rightarrow> False)"

text \<open>Every drmPrimeFDToHandle call of the plane loop on the descriptor succeeds.\<close>

definition handles_resolved :: "drm_env \<Rightarrow> AVDRMFrameDescriptor \<Rightarrow> bool" where
  "handles_resolved env d =
     list_all (\<lambda>l. list_all (\<lambda>i. 0 \<le> fst (drmPrimeFDToHandle_r env i)) [0..<length (planes l)])
       (layers d)"

text \<open>The descriptor a render call works on: the backend's when there is one, else the
  frame's own.\<close>

definition frame_descriptor :: "drm_env \<Rightarrow> DrmRenderer \<Rightarrow> AVFrame \<Rightarrow> AVDRMFrameDescriptor option" where
  "frame_descriptor env s frame =
     (if m_BackendRenderer s then mapDrmPrimeFrame_r env else drm_prime frame)"

text \<open>A sequence of \<open>setHdrMode\<close> calls, each with the answers it gets.\<close>

fun setHdrMode_calls :: "DrmRenderer \<Rightarrow> (drm_env \<times> bool) list \<Rightarrow> DrmRenderer \<times> event list" where
  "setHdrMode_calls s [] = (s, [])"
| "setHdrMode_calls s ((env, enabled) # calls) =
     (let (s1, t1) = setHdrMode env s enabled;
          (s2, t2) = setHdrMode_calls s1 calls
      in (s2, t1 @ t2))"

subsection \<open>Concrete inputs\<close>

text \<open>
  An NV12 frame of 1920 by 1080 in one linear buffer, a device with the three
  properties, and answers of a kernel on which every call succeeds.
\<close>

definition nv12_luma :: AVDRMPlaneDescriptor where
  "nv12_luma = \<lparr> object_index = 0, offset = 0, pitch = 1920 \<rparr>"

definition nv12_chroma :: AVDRMPlaneDescriptor where
  "nv12_chroma = \<lparr> object_index = 0, offset = 2073600, pitch = 1920 \<rparr>"

definition nv12_layer :: AVDRMLayerDescriptor where
  "nv12_layer = \<lparr> format = 0x3231564E, planes = [nv12_luma, nv12_chroma] \<rparr>"

definition nv12_descriptor :: AVDRMFrameDescriptor where
  "nv12_descriptor =
     \<lparr> objects = [\<lparr> fd = 5, format_modifier = 0 \<rparr>], layers = [nv12_layer] \<rparr>"

definition nv12_frame :: "int \<Rightarrow> bool \<Rightarrow> AVFrame" where
  "nv12_frame colorspace fullRange =
     \<lparr> width = 1920, height = 1080, getFrameColorspace = colorspace,
       isFrameFullRange = fullRange, drm_prime = Some nv12_descriptor \<rparr>"

definition color_range_prop :: drmModePropertyRes where
  "color_range_prop =
     \<lparr> prop_id = 30, prop_name = ''COLOR_RANGE'',
       enums = [\<lparr> enum_value = 0, enum_name = ''YCbCr limited range'' \<rparr>,
                \<lparr> enum_value = 1, enum_name = ''YCbCr full range'' \<rparr>] \<rparr>"

definition color_encoding_prop :: drmModePropertyRes where
  "color_encoding_prop =
     \<lparr> prop_id = 29, prop_name = ''COLOR_ENCODING'',
       enums = [\<lparr> enum_value = 0, enum_name = ''ITU-R BT.601 YCbCr'' \<rparr>,
                \<lparr> enum_value = 1, enum_name = ''ITU-R BT.709 YCbCr'' \<rparr>,
                \<lparr> enum_value = 2, enum_name = ''ITU-R BT.2020 YCbCr'' \<rparr>] \<rparr>"

definition hdr_prop :: drmModePropertyRes where
  "hdr_prop = \<lparr> prop_id = 31, prop_name = ''HDR_OUTPUT_METADATA'', enums = [] \<rparr>"

definition bound_renderer :: "bool \<Rightarrow> DrmRenderer" where
  "bound_renderer backendRenderer =
     (DrmRenderer_new backendRenderer)
       \<lparr> m_DrmFd := 3, m_ConnectorId := 77, m_EncoderId := 60, m_CrtcId := 50,
         m_PlaneId := 40,
         m_ColorEncodingProp := Some color_encoding_prop,
         m_ColorRangeProp := Some color_range_prop,
         m_HdrOutputMetadataProp := Some hdr_prop,
         m_OutputRect := \<lparr> rect_x = 0, rect_y = 0, rect_w = 1920, rect_h = 1080 \<rparr> \<rparr>"

definition kernel_ok :: "uint32_t \<Rightarrow> drm_env" where
  "kernel_ok new_id =
     \<lparr> mapDrmPrimeFrame_r = Some nv12_descriptor,
       canExportDrmPrime_r = True,
       drmPrimeFDToHandle_r = (\<lambda>i. (0, 1)),
       drmModeAddFB2WithModifiers_r = (0, new_id),
       drmModeObjectSetProperty_r = (\<lambda>obj prop v. 0),
       drmModeSetPlane_r = 0,
       drmModeCreatePropertyBlob_r = (0, new_id),
       LiGetHdrMetadata_r = None,
       scaleSourceToDestinationSurface_r = (\<lambda>src dst. dst) \<rparr>"

text \<open>
  An NV12 frame whose planes lie in two buffers with different tiling modifiers. The four
  32-bit halves of the two modifiers are different and not zero, and the low half of the
  second has its top bit set.
\<close>

definition tiled_luma :: AVDRMPlaneDescriptor where
  "tiled_luma = \<lparr> object_index = 0, offset = 0, pitch = 2048 \<rparr>"

definition tiled_chroma :: AVDRMPlaneDescriptor where
  "tiled_chroma = \<lparr> object_index = 1, offset = 4096, pitch = 1024 \<rparr>"

definition tiled_layer :: AVDRMLayerDescriptor where
  "tiled_layer = \<lparr> format = 0x3231564E, planes = [tiled_luma, tiled_chroma] \<rparr>"

definition tiled_descriptor :: AVDRMFrameDescriptor where
  "tiled_descriptor =
     \<lparr> objects = [\<lparr> fd = 5, format_modifier = 0x0100000000000001 \<rparr>,
                  \<lparr> fd = 6, format_modifier = 0x0200000080000003 \<rparr>],
       layers = [tiled_layer] \<rparr>"

definition tiled_frame :: AVFrame where
  "tiled_frame =
     \<lparr> width = 1920, height = 1080, getFrameColorspace = COLORSPACE_REC_709,
       isFrameFullRange = False, drm_prime = Some tiled_descriptor \<rparr>"

text \<open>The same kernel when framebuffer creation fails, and when the plane commit fails.\<close>

definition kernel_addfb_fails :: drm_env where
  "kernel_addfb_fails = (kernel_ok 42)\<lparr> drmModeAddFB2WithModifiers_r := (- 22, 0) \<rparr>"

definition kernel_commit_fails :: drm_env where
  "kernel_commit_fails = (kernel_ok 42)\<lparr> drmModeSetPlane_r := - 22 \<rparr>"

text \<open>A renderer that has framebuffer 9 on the plane.\<close>

definition showing_renderer :: "bool \<Rightarrow> DrmRenderer" where
  "showing_renderer backendRenderer = (bound_renderer backendRenderer)\<lparr> m_CurrentFbId := 9 \<rparr>"

section \<open>Auxiliary facts about traces and about the stages of a render call\<close>

lemmas nv12_defs = nv12_descriptor_def nv12_layer_def nv12_luma_def nv12_chroma_def

lemma live_fbs_append: "live_fbs L (t @ u) = live_fbs (live_fbs L t) u"
  by (induction L t rule: live_fbs.induct) simp_all

lemma displayed_fb_append: "displayed_fb d (t @ u) = displayed_fb (displayed_fb d t) u"
  by (induction d t rule: displayed_fb.induct) simp_all

lemma live_blobs_append: "live_blobs B (t @ u) = live_blobs (live_blobs B t) u"
  by (induction t arbitrary: B) simp_all

lemma peak_blobs_append:
  "peak_blobs B (t @ u) = max (peak_blobs B t) (peak_blobs (live_blobs B t) u)"
proof (induction t arbitrary: B)
  case Nil
  show ?case by (cases u) simp_all
next
  case (Cons e t)
  then show ?case by (simp add: max.assoc)
qed

lemma plane_property_writes_append:
  "plane_property_writes (t @ u) = plane_property_writes t @ plane_property_writes u"
  by (induction t rule: plane_property_writes.induct) simp_all

lemma live_fbs_quiet: "list_all fb_quiet t \<Longrightarrow> live_fbs L t = L"
  by (induction L t rule: live_fbs.induct) simp_all

lemma displayed_fb_quiet: "list_all fb_quiet t \<Longrightarrow> displayed_fb d t = d"
  by (induction d t rule: displayed_fb.induct) simp_all

lemma quiet_no_RmFB: "list_all fb_quiet t \<Longrightarrow> \<not> list_ex is_RmFB t"
  by (induction t) (auto elim: is_RmFB.elims)

lemma quiet_no_SetPlane: "list_all fb_quiet t \<Longrightarrow> \<not> list_ex is_SetPlane t"
  by (induction t) (auto elim: is_SetPlane.elims)

lemma quiet_no_fb_created: "list_all fb_quiet t \<Longrightarrow> \<not> list_ex fb_created t"
  by (induction t) (auto elim: fb_created.elims)

lemma resolvePlanes_not_None:
  "i + length ps \<le> 4 \<Longrightarrow>
   list_all (\<lambda>p. 0 \<le> object_index p \<and> object_index p < int (length objs)) ps \<Longrightarrow>
   resolvePlanes env b objs ps i a \<noteq> None"
proof (induction ps arbitrary: i a)
  case Nil
  show ?case by simp
next
  case (Cons p ps)
  from Cons.prems have "Suc i + length ps \<le> 4" 
    and "list_all (\<lambda>p. 0 \<le> object_index p \<and> object_index p < int (length objs)) ps"
    by simp_all
  from Cons.IH [OF this] have next_round: "resolvePlanes env b objs ps (Suc i) a' \<noteq> None" for a' .
  obtain err h where eh: "drmPrimeFDToHandle_r env i = (err, h)"
    by (cases "drmPrimeFDToHandle_r env i")
  obtain r t where
    "resolvePlanes env b objs ps (Suc i) (store_plane i h p (objs ! nat (object_index p)) a)
       = Some (r, t)"
    using next_round by fastforce
  with Cons.prems eh show ?case
    by (simp add: Let_def)
qed

lemma resolvePlanes_defined:
  "i + length ps \<le> 4 \<Longrightarrow>
   list_all (\<lambda>p. 0 \<le> object_index p \<and> object_index p < int (length objs)) ps \<Longrightarrow>
   \<exists>r t. resolvePlanes env b objs ps i a = Some (r, t)"
  using resolvePlanes_not_None [of i ps objs env b a] by auto

lemma resolvePlanes_quiet:
  "resolvePlanes env b objs ps i a = Some (r, t) \<Longrightarrow> list_all fb_quiet t"
proof (induction ps arbitrary: i a r t)
  case Nil
  then show ?case by auto
next
  case (Cons p ps)
  then show ?case
    by (auto simp: Let_def split: if_splits prod.splits option.splits)
qed

lemma resolvePlanes_unmap:
  "resolvePlanes env b objs ps i a = Some (r, t) \<Longrightarrow>
   count_list t UnmapDrmPrimeFrame = (if r = None \<and> b then 1 else 0)"
proof (induction ps arbitrary: i a r t)
  case Nil
  then show ?case by auto
next
  case (Cons p ps)
  then show ?case
    by (auto simp: Let_def split: if_splits prod.splits option.splits)
qed

lemma resolvePlanes_writes:
  "resolvePlanes env b objs ps i a = Some (r, t) \<Longrightarrow> plane_property_writes t = []"
proof (induction ps arbitrary: i a r t)
  case Nil
  then show ?case by auto
next
  case (Cons p ps)
  then show ?case
    by (auto simp: Let_def split: if_splits prod.splits option.splits)
qed

lemma resolvePlanes_succeeds:
  "resolvePlanes env b objs ps i a = Some (r, t) \<Longrightarrow>
   (\<forall>j<length ps. 0 \<le> fst (drmPrimeFDToHandle_r env (i + j))) \<Longrightarrow> r \<noteq> None"
proof (induction ps arbitrary: i a r t)
  case Nil
  then show ?case by auto
next
  case (Cons p ps)
  from Cons.prems(2) have here: "0 \<le> fst (drmPrimeFDToHandle_r env i)"
    by (metis add.right_neutral length_Cons zero_less_Suc)
  from Cons.prems(2) have rest: "\<forall>j<length ps. 0 \<le> fst (drmPrimeFDToHandle_r env (Suc i + j))"
    by (metis Suc_less_eq add_Suc_shift length_Cons)
  from Cons.prems(1) here Cons.IH [OF _ rest] show ?case
    by (auto simp: Let_def split: if_splits prod.splits option.splits)
qed


lemma color_range_quiet: "list_all fb_quiet (snd (updateColorRange env s f))"
  by (simp add: updateColorRange_def setPlaneProperty_def Let_def getDrmColorRangeValue_def split: option.splits)

lemma color_encoding_quiet: "list_all fb_quiet (snd (updateColorEncoding env s f))"
  by (simp add: updateColorEncoding_def setPlaneProperty_def Let_def split: option.splits)

lemma color_range_unmap: "count_list (snd (updateColorRange env s f)) UnmapDrmPrimeFrame = 0"
  by (simp add: updateColorRange_def setPlaneProperty_def Let_def getDrmColorRangeValue_def split: option.splits)

lemma color_encoding_unmap: "count_list (snd (updateColorEncoding env s f)) UnmapDrmPrimeFrame = 0"
  by (simp add: updateColorEncoding_def setPlaneProperty_def Let_def split: option.splits)

lemma color_range_fb: "m_CurrentFbId (fst (updateColorRange env s f)) = m_CurrentFbId s"
  by (simp add: updateColorRange_def Let_def)

lemma color_encoding_fb: "m_CurrentFbId (fst (updateColorEncoding env s f)) = m_CurrentFbId s"
  by (simp add: updateColorEncoding_def Let_def)


lemma updateColorProperties_eq:
  "updateColorProperties env s f =
     (fst (updateColorEncoding env (fst (updateColorRange env s f)) f),
      snd (updateColorRange env s f)
      @ snd (updateColorEncoding env (fst (updateColorRange env s f)) f))"
  by (simp add: updateColorProperties_def split_def Let_def)

lemma color_props_quiet: "list_all fb_quiet (snd (updateColorProperties env s f))"
  using color_range_quiet [of env s f]
        color_encoding_quiet [of env "fst (updateColorRange env s f)" f]
  by (simp add: updateColorProperties_eq)

lemma color_props_unmap:
  "count_list (snd (updateColorProperties env s f)) UnmapDrmPrimeFrame = 0"
  using color_range_unmap [of env s f]
        color_encoding_unmap [of env "fst (updateColorRange env s f)" f]
  by (simp add: updateColorProperties_eq)

lemma color_props_fb: "m_CurrentFbId (fst (updateColorProperties env s f)) = m_CurrentFbId s"
  by (simp add: updateColorProperties_eq color_range_fb color_encoding_fb)

lemma color_props_state:
  "fst (updateColorProperties env s f) =
     s\<lparr>m_LastFullRange := isFrameFullRange f, m_LastColorSpace := getFrameColorspace f\<rparr>"
  by (auto simp: updateColorProperties_def updateColorRange_def updateColorEncoding_def
        split_def Let_def)

lemma render_handles_failed:
  assumes "frame_descriptor env s frame = Some d" and "layers d = [layer]"
    and "resolvePlanes env (m_BackendRenderer s) (objects d) (planes layer) 0 fb_arrays_init
           = Some (None, t1)"
  shows "renderFrame env s frame =
           Some (s, (if m_BackendRenderer s then [MapDrmPrimeFrame True] else []) @ t1)"
  using assms by (auto simp: renderFrame_def frame_descriptor_def split: if_splits)

lemma render_fb_failed:
  assumes "frame_descriptor env s frame = Some d" and "layers d = [layer]"
    and "resolvePlanes env (m_BackendRenderer s) (objects d) (planes layer) 0 fb_arrays_init
           = Some (Some a, t1)"
    and "drmModeAddFB2WithModifiers_r env = (err, fb)" and "err < 0"
  shows "renderFrame env s frame =
           Some (s, (if m_BackendRenderer s then [MapDrmPrimeFrame True] else []) @ t1
                    @ [DrmModeAddFB2WithModifiers (addFB2_request frame layer a) err fb]
                    @ (if m_BackendRenderer s then [UnmapDrmPrimeFrame] else [])
                    @ [SDL_Log LogError ''drmModeAddFB2WithModifiers() failed: %d'' []])"
  using assms by (auto simp: renderFrame_def frame_descriptor_def split: if_splits)

lemma render_commit_failed:
  assumes "frame_descriptor env s frame = Some d" and "layers d = [layer]"
    and "resolvePlanes env (m_BackendRenderer s) (objects d) (planes layer) 0 fb_arrays_init
           = Some (Some a, t1)"
    and "drmModeAddFB2WithModifiers_r env = (err, fb)" and "0 \<le> err"
    and "updateColorProperties env (s\<lparr>m_CurrentFbId := fb\<rparr>) frame = (s3, t3)"
    and "drmModeSetPlane_r env < 0"
  shows "renderFrame env s frame =
           Some (s3\<lparr>m_CurrentFbId := m_CurrentFbId s\<rparr>,
                 (if m_BackendRenderer s then [MapDrmPrimeFrame True] else []) @ t1
                 @ [DrmModeAddFB2WithModifiers (addFB2_request frame layer a) err fb]
                 @ (if m_BackendRenderer s then [UnmapDrmPrimeFrame] else [])
                 @ t3
                 @ [DrmModeSetPlane
                      (setPlane_request s3 frame
                         (scaleSourceToDestinationSurface_r env
                            \<lparr> rect_x = 0, rect_y = 0, rect_w = width frame, rect_h = height frame \<rparr>
                            (m_OutputRect s)))
                      (drmModeSetPlane_r env),
                    SDL_Log LogError ''drmModeSetPlane() failed: %d'' [],
                    DrmModeRmFB (m_CurrentFbId s3)])"
  using assms by (auto simp: renderFrame_def frame_descriptor_def split: if_splits)

lemma render_committed:
  assumes "frame_descriptor env s frame = Some d" and "layers d = [layer]"
    and "resolvePlanes env (m_BackendRenderer s) (objects d) (planes layer) 0 fb_arrays_init
           = Some (Some a, t1)"
    and "drmModeAddFB2WithModifiers_r env = (err, fb)" and "0 \<le> err"
    and "updateColorProperties env (s\<lparr>m_CurrentFbId := fb\<rparr>) frame = (s3, t3)"
    and "0 \<le> drmModeSetPlane_r env"
  shows "renderFrame env s frame =
           Some (s3,
                 (if m_BackendRenderer s then [MapDrmPrimeFrame True] else []) @ t1
                 @ [DrmModeAddFB2WithModifiers (addFB2_request frame layer a) err fb]
                 @ (if m_BackendRenderer s then [UnmapDrmPrimeFrame] else [])
                 @ t3
                 @ [DrmModeSetPlane
                      (setPlane_request s3 frame
                         (scaleSourceToDestinationSurface_r env
                            \<lparr> rect_x = 0, rect_y = 0, rect_w = width frame, rect_h = height frame \<rparr>
                            (m_OutputRect s)))
                      (drmModeSetPlane_r env),
                    DrmModeRmFB (m_CurrentFbId s)])"
  using assms by (auto simp: renderFrame_def frame_descriptor_def split: if_splits)


lemma wf_descriptorD:
  assumes "wf_descriptor d"
  obtains layer where "layers d = [layer]" and "length (planes layer) \<le> 4"
    and "list_all (\<lambda>p. 0 \<le> object_index p \<and> object_index p < int (length (objects d)))
           (planes layer)"
  using assms by (auto simp: wf_descriptor_def split: list.splits)

lemma resolvePlanes_wf:
  assumes "wf_descriptor d" and "layers d = [layer]"
  shows "\<exists>r t. resolvePlanes env b (objects d) (planes layer) 0 fb_arrays_init = Some (r, t)"
  using assms resolvePlanes_defined [of 0 "planes layer" "objects d" env b fb_arrays_init]
  by (auto simp: wf_descriptor_def)

lemma resolvePlanes_resolved:
  assumes "handles_resolved env d" and "layers d = [layer]"
    and "resolvePlanes env b (objects d) (planes layer) 0 a = Some (r, t)"
  shows "\<exists>a'. r = Some a'"
proof -
  from assms(1,2) have "\<forall>j<length (planes layer). 0 \<le> fst (drmPrimeFDToHandle_r env (0 + j))"
    by (simp add: handles_resolved_def list_all_iff)
  from resolvePlanes_succeeds [OF assms(3) this] show ?thesis by auto
qed

lemma setPlaneProperty_writes:
  "plane_property_writes (setPlaneProperty env s prop d what) = enum_write (Some prop) (Some d)"
  by (simp add: setPlaneProperty_def enum_write_def Let_def split: option.splits)

lemma updateColorRange_writes:
  "plane_property_writes (snd (updateColorRange env s f)) =
     (if isFrameFullRange f \<noteq> m_LastFullRange s \<or> getFrameColorspace f \<noteq> m_LastColorSpace s
      then enum_write (m_ColorRangeProp s) (getDrmColorRangeValue f) else [])"
  by (simp add: updateColorRange_def Let_def setPlaneProperty_writes getDrmColorRangeValue_def
        enum_write_def split: option.splits)

lemma updateColorEncoding_writes:
  "plane_property_writes (snd (updateColorEncoding env s f)) =
     (if getFrameColorspace f \<noteq> m_LastColorSpace s
      then enum_write (m_ColorEncodingProp s) (getDrmColorEncodingValue f) else [])"
  by (simp add: updateColorEncoding_def Let_def setPlaneProperty_writes
        enum_write_def split: option.splits)

lemma updateColorRange_other:
  "m_LastColorSpace (fst (updateColorRange env s f)) = m_LastColorSpace s"
  "m_ColorEncodingProp (fst (updateColorRange env s f)) = m_ColorEncodingProp s"
  by (simp_all add: updateColorRange_def Let_def)

lemma color_props_writes:
  "plane_property_writes (snd (updateColorProperties env s f)) =
     (if isFrameFullRange f \<noteq> m_LastFullRange s \<or> getFrameColorspace f \<noteq> m_LastColorSpace s
      then enum_write (m_ColorRangeProp s) (getDrmColorRangeValue f) else [])
     @ (if getFrameColorspace f \<noteq> m_LastColorSpace s
        then enum_write (m_ColorEncodingProp s) (getDrmColorEncodingValue f) else [])"
  by (simp add: updateColorProperties_eq plane_property_writes_append updateColorRange_writes
        updateColorEncoding_writes updateColorRange_other)

lemma renderFrame_layers:
  assumes "frame_descriptor env s frame = Some d" and "\<nexists>layer. layers d = [layer]"
  shows "renderFrame env s frame = None"
  using assms
  by (auto simp: renderFrame_def frame_descriptor_def Let_def split: list.splits if_splits)

lemma renderFrame_planes:
  assumes "frame_descriptor env s frame = Some d" and "layers d = [layer]"
    and "resolvePlanes env (m_BackendRenderer s) (objects d) (planes layer) 0 fb_arrays_init = None"
  shows "renderFrame env s frame = None"
  using assms
  by (auto simp: renderFrame_def frame_descriptor_def split: if_splits)

text \<open>What a render call that returns has done, by whether a framebuffer was created.\<close>

lemma renderFrame_cases:
  assumes "renderFrame env s frame = Some (s', t)"
  shows "(\<not> list_ex fb_created t \<and> s' = s \<and> plane_property_writes t = [])
         \<or> (list_ex fb_created t
            \<and> (\<exists>fb cur. s' = (fst (updateColorProperties env (s\<lparr>m_CurrentFbId := fb\<rparr>) frame))
                                \<lparr>m_CurrentFbId := cur\<rparr>)
            \<and> (\<exists>fb. plane_property_writes t =
                  plane_property_writes
                    (snd (updateColorProperties env (s\<lparr>m_CurrentFbId := fb\<rparr>) frame))))"
proof (cases "m_BackendRenderer s \<and> mapDrmPrimeFrame_r env = None")
  case True
  with assms show ?thesis
    by (auto simp: renderFrame_def)
next
  case False
  with assms obtain d where desc: "frame_descriptor env s frame = Some d"
    by (auto simp: renderFrame_def frame_descriptor_def split: option.splits if_splits)
  from renderFrame_layers [OF desc] assms obtain layer where layer: "layers d = [layer]"
    by fastforce
  from renderFrame_planes [OF desc layer] assms obtain r t1 where
    r: "resolvePlanes env (m_BackendRenderer s) (objects d) (planes layer) 0 fb_arrays_init
          = Some (r, t1)"
    by fastforce
  have q1: "list_all fb_quiet t1"
    using resolvePlanes_quiet [OF r] .
  have w1: "plane_property_writes t1 = []"
    using resolvePlanes_writes [OF r] .
  obtain err fb where answer: "drmModeAddFB2WithModifiers_r env = (err, fb)"
    by (cases "drmModeAddFB2WithModifiers_r env")
  obtain s3 t3 where c: "updateColorProperties env (s\<lparr>m_CurrentFbId := fb\<rparr>) frame = (s3, t3)"
    by (cases "updateColorProperties env (s\<lparr>m_CurrentFbId := fb\<rparr>) frame")
  have s3: "s3 = fst (updateColorProperties env (s\<lparr>m_CurrentFbId := fb\<rparr>) frame)"
    and t3: "t3 = snd (updateColorProperties env (s\<lparr>m_CurrentFbId := fb\<rparr>) frame)"
    using c by simp_all
  show ?thesis
  proof (cases r)
    case None
    from render_handles_failed [OF desc layer r [unfolded None]] assms
    have "s' = s" and "t = (if m_BackendRenderer s then [MapDrmPrimeFrame True] else []) @ t1"
      by simp_all
    with q1 w1 quiet_no_fb_created [OF q1] show ?thesis
      by (simp add: plane_property_writes_append)
  next
    case (Some a)
    note ok = r [unfolded Some]
    consider (fb_failed) "err < 0"
      | (commit_failed) "0 \<le> err" "drmModeSetPlane_r env < 0"
      | (committed) "0 \<le> err" "0 \<le> drmModeSetPlane_r env"
      by linarith
    then show ?thesis
    proof cases
      case fb_failed
      from render_fb_failed [OF desc layer ok answer fb_failed] assms
      have "s' = s"
        and "t = (if m_BackendRenderer s then [MapDrmPrimeFrame True] else []) @ t1
                 @ [DrmModeAddFB2WithModifiers (addFB2_request frame layer a) err fb]
                 @ (if m_BackendRenderer s then [UnmapDrmPrimeFrame] else [])
                 @ [SDL_Log LogError ''drmModeAddFB2WithModifiers() failed: %d'' []]"
        by simp_all
      with w1 quiet_no_fb_created [OF q1] fb_failed show ?thesis
        by (simp add: plane_property_writes_append)
    next
      case commit_failed
      from render_commit_failed [OF desc layer ok answer commit_failed(1) c commit_failed(2)] assms
      have "s' = s3\<lparr>m_CurrentFbId := m_CurrentFbId s\<rparr>"
        and "list_ex fb_created t"
        and "plane_property_writes t = plane_property_writes t3"
        using commit_failed(1) w1 by (auto simp: plane_property_writes_append)
      then show ?thesis
        unfolding s3 t3 by blast
    next
      case committed
      from render_committed [OF desc layer ok answer committed(1) c committed(2)] assms
      have "s' = s3"
        and "list_ex fb_created t"
        and "plane_property_writes t = plane_property_writes t3"
        using committed(1) w1 by (auto simp: plane_property_writes_append)
      moreover have "s3 = s3\<lparr>m_CurrentFbId := m_CurrentFbId s3\<rparr>"
        by simp
      ultimately show ?thesis
        unfolding s3 t3 by metis
    qed
  qed
qed

lemma renderFrame_preserves:
  assumes "renderFrame env s frame = Some (s', t)"
  shows "m_BackendRenderer s' = m_BackendRenderer s"
    and "m_ColorRangeProp s' = m_ColorRangeProp s"
    and "m_ColorEncodingProp s' = m_ColorEncodingProp s"
  using renderFrame_cases [OF assms] by (auto simp: color_props_state)

lemma renderFrame_cache:
  assumes "renderFrame env s frame = Some (s', t)"
  shows "list_ex fb_created t \<Longrightarrow> m_LastFullRange s' = isFrameFullRange frame"
    and "list_ex fb_created t \<Longrightarrow> m_LastColorSpace s' = getFrameColorspace frame"
    and "\<not> list_ex fb_created t \<Longrightarrow> s' = s"
  using renderFrame_cases [OF assms] by (auto simp: color_props_state)

lemma renderFrame_writes:
  assumes "renderFrame env s frame = Some (s', t)" and "list_ex fb_created t"
  shows "plane_property_writes t =
           (if isFrameFullRange frame \<noteq> m_LastFullRange s
               \<or> getFrameColorspace frame \<noteq> m_LastColorSpace s
            then enum_write (m_ColorRangeProp s) (getDrmColorRangeValue frame) else [])
           @ (if getFrameColorspace frame \<noteq> m_LastColorSpace s
              then enum_write (m_ColorEncodingProp s) (getDrmColorEncodingValue frame) else [])"
  using renderFrame_cases [OF assms(1)] assms(2) by (auto simp: color_props_writes)

lemma renderFrame_creates:
  assumes desc: "frame_descriptor env s frame = Some d"
    and wf: "wf_descriptor d"
    and handles: "handles_resolved env d"
    and created: "0 \<le> fst (drmModeAddFB2WithModifiers_r env)"
  shows "\<exists>s' t. renderFrame env s frame = Some (s', t) \<and> list_ex fb_created t"
proof -
  from wf obtain layer where layer: "layers d = [layer]"
    by (rule wf_descriptorD)
  from resolvePlanes_wf [OF wf layer] obtain r t1 where
    r: "resolvePlanes env (m_BackendRenderer s) (objects d) (planes layer) 0 fb_arrays_init
          = Some (r, t1)"
    by blast
  from resolvePlanes_resolved [OF handles layer r] obtain a where a: "r = Some a"
    by blast
  obtain err fb where answer: "drmModeAddFB2WithModifiers_r env = (err, fb)"
    by (cases "drmModeAddFB2WithModifiers_r env")
  with created have pos: "0 \<le> err"
    by simp
  obtain s3 t3 where c: "updateColorProperties env (s\<lparr>m_CurrentFbId := fb\<rparr>) frame = (s3, t3)"
    by (cases "updateColorProperties env (s\<lparr>m_CurrentFbId := fb\<rparr>) frame")
  show ?thesis
  proof (cases "drmModeSetPlane_r env < 0")
    case True
    from render_commit_failed [OF desc layer r [unfolded a] answer pos c True] pos show ?thesis
      by simp
  next
    case False
    then have "0 \<le> drmModeSetPlane_r env"
      by simp
    from render_committed [OF desc layer r [unfolded a] answer pos c this] pos show ?thesis
      by simp
  qed
qed

lemma renderFrame_creation_fails:
  assumes desc: "frame_descriptor env s frame = Some d"
    and wf: "wf_descriptor d"
    and handles: "handles_resolved env d"
    and failed: "fst (drmModeAddFB2WithModifiers_r env) < 0"
  shows "\<exists>t. renderFrame env s frame = Some (s, t) \<and> \<not> list_ex fb_created t"
proof -
  from wf obtain layer where layer: "layers d = [layer]"
    by (rule wf_descriptorD)
  from resolvePlanes_wf [OF wf layer] obtain r t1 where
    r: "resolvePlanes env (m_BackendRenderer s) (objects d) (planes layer) 0 fb_arrays_init
          = Some (r, t1)"
    by blast
  from resolvePlanes_resolved [OF handles layer r] obtain a where a: "r = Some a"
    by blast
  obtain err fb where answer: "drmModeAddFB2WithModifiers_r env = (err, fb)"
    by (cases "drmModeAddFB2WithModifiers_r env")
  with failed have neg: "err < 0"
    by simp
  from render_fb_failed [OF desc layer r [unfolded a] answer neg] neg
    quiet_no_fb_created [OF resolvePlanes_quiet [OF r]]
  show ?thesis
    by simp
qed

lemma nv12_inputs:
  "frame_descriptor (kernel_ok fb) (bound_renderer False) (nv12_frame c r) = Some nv12_descriptor"
  "frame_descriptor (kernel_ok fb) (DrmRenderer_new False) (nv12_frame c r) = Some nv12_descriptor"
  "frame_descriptor kernel_addfb_fails (DrmRenderer_new False) (nv12_frame c r) = Some nv12_descriptor"
  "wf_descriptor nv12_descriptor"
  "handles_resolved (kernel_ok fb) nv12_descriptor"
  "handles_resolved kernel_addfb_fails nv12_descriptor"
  "fst (drmModeAddFB2WithModifiers_r (kernel_ok fb)) = 0"
  "fst (drmModeAddFB2WithModifiers_r kernel_addfb_fails) = - 22"
  by (simp_all add: frame_descriptor_def kernel_ok_def kernel_addfb_fails_def bound_renderer_def
        DrmRenderer_new_def nv12_frame_def wf_descriptor_def nv12_defs
        handles_resolved_def list_all_iff)

lemma setHdrMode_blobs:
  assumes hdr: "m_HdrOutputMetadataProp s = Some prop"
    and kernel: "0 \<le> fst (drmModeCreatePropertyBlob_r env) \<longrightarrow>
                 snd (drmModeCreatePropertyBlob_r env) \<noteq> 0"
  shows "peak_blobs (owned_blobs s) (snd (setHdrMode env s enabled)) \<le> 1"
    and "live_blobs (owned_blobs s) (snd (setHdrMode env s enabled))
           = owned_blobs (fst (setHdrMode env s enabled))"
    and "m_HdrOutputMetadataProp (fst (setHdrMode env s enabled)) = Some prop"
proof -
  obtain err blob where answer: "drmModeCreatePropertyBlob_r env = (err, blob)"
    by (cases "drmModeCreatePropertyBlob_r env")
  with kernel have nz: "0 \<le> err \<Longrightarrow> blob \<noteq> 0"
    by simp
  show "peak_blobs (owned_blobs s) (snd (setHdrMode env s enabled)) \<le> 1"
    using hdr answer nz
    by (cases "m_HdrOutputMetadataBlobId s = 0"; cases enabled; cases "err < 0")
       (simp_all add: setHdrMode_def owned_blobs_def Let_def)
  show "live_blobs (owned_blobs s) (snd (setHdrMode env s enabled))
          = owned_blobs (fst (setHdrMode env s enabled))"
    using hdr answer nz
    by (cases "m_HdrOutputMetadataBlobId s = 0"; cases enabled; cases "err < 0")
       (simp_all add: setHdrMode_def owned_blobs_def Let_def)
  show "m_HdrOutputMetadataProp (fst (setHdrMode env s enabled)) = Some prop"
    using hdr answer
    by (cases "m_HdrOutputMetadataBlobId s = 0"; cases enabled; cases "err < 0")
       (simp_all add: setHdrMode_def Let_def)
qed

lemma setHdrMode_calls_blobs:
  assumes "m_HdrOutputMetadataProp s = Some prop"
    and "list_all (\<lambda>(env, enabled). 0 \<le> fst (drmModeCreatePropertyBlob_r env) \<longrightarrow>
                     snd (drmModeCreatePropertyBlob_r env) \<noteq> 0) calls"
  shows "peak_blobs (owned_blobs s) (snd (setHdrMode_calls s calls)) \<le> 1
         \<and> live_blobs (owned_blobs s) (snd (setHdrMode_calls s calls))
             = owned_blobs (fst (setHdrMode_calls s calls))"
  using assms
proof (induction calls arbitrary: s)
  case Nil
  show ?case
    by (simp add: owned_blobs_def)
next
  case (Cons call calls)
  obtain env enabled where call: "call = (env, enabled)"
    by (cases call)
  from Cons.prems(2) call
  have k: "0 \<le> fst (drmModeCreatePropertyBlob_r env) \<longrightarrow>
           snd (drmModeCreatePropertyBlob_r env) \<noteq> 0"
    and ks: "list_all (\<lambda>(env, enabled). 0 \<le> fst (drmModeCreatePropertyBlob_r env) \<longrightarrow>
                         snd (drmModeCreatePropertyBlob_r env) \<noteq> 0) calls"
    by simp_all
  note one = setHdrMode_blobs [OF Cons.prems(1) k, of enabled]
  note rest = Cons.IH [OF one(3) ks]
  from one(1,2) rest show ?case
    by (simp add: call split_def Let_def peak_blobs_append live_blobs_append)
qed

lemma modifier_lo_eq: "modifier_lo m = sint (word_of_int (uint m) :: 32 word)"
proof -
  have mask: "(0xFFFFFFFF :: 64 word) = mask 32"
    by (simp add: mask_eq_exp_minus_1)
  have "(ucast (m AND 0xFFFFFFFF) :: 32 word) = ucast m"
    unfolding mask by (rule bit_word_eqI) (auto simp: bit_simps)
  then have "(ucast (m AND 0xFFFFFFFF) :: 32 word) = word_of_int (uint m)"
    by (simp only: ucast_eq)
  then show ?thesis
    by (simp only: modifier_lo_def)
qed

lemma modifier_hi_eq: "modifier_hi m = sint (word_of_int (uint m div 2 ^ 32) :: 32 word)"
proof -
  have "take_bit 64 (uint m) = uint m"
    using uint_bounded [of m] by (simp add: take_bit_int_eq_self)
  then have "uint (drop_bit 32 m) = drop_bit 32 (uint m)"
    by (simp add: unsigned_drop_bit_eq)
  then have "uint (drop_bit 32 m) = uint m div 2 ^ 32"
    by (simp only: drop_bit_eq_div)
  then have "(ucast (drop_bit 32 m) :: 32 word) = word_of_int (uint m div 2 ^ 32)"
    by (simp only: ucast_eq)
  then show ?thesis
    by (simp only: modifier_hi_def)
qed

lemmas tiled_defs = tiled_descriptor_def tiled_layer_def tiled_luma_def tiled_chroma_def

section \<open>The claims\<close>

text \<open>
  C1. A render call on a frame with one layer and at most four planes (so with 1 to 4
  planes) in which the mapping by the backend (if there is one), the resolution of every
  buffer handle, the creation of the framebuffer and the plane commit succeed, the kernel
  answering with a new, non-zero framebuffer identifier: the call returns; its trace ends
  with the commit of the new framebuffer followed by the destruction of the previously
  current one, and no framebuffer is destroyed before that commit; between creation and
  that destruction the new framebuffer exists beside the old one; afterwards the new
  framebuffer is the one recorded as current and the only one left.
\<close>

theorem renderFrame_success:
  assumes desc: "frame_descriptor env s frame = Some d"
    and wf: "wf_descriptor d"
    and handles: "handles_resolved env d"
    and created: "drmModeAddFB2WithModifiers_r env = (err, fb)" "0 \<le> err"
    and fresh: "fb \<noteq> 0" "fb \<noteq> m_CurrentFbId s"
    and committed: "0 \<le> drmModeSetPlane_r env"
  shows "\<exists>s' pre req.
           renderFrame env s frame =
             Some (s', pre @ [DrmModeSetPlane req (drmModeSetPlane_r env),
                              DrmModeRmFB (m_CurrentFbId s)])
           \<and> sp_fb_id req = fb
           \<and> m_CurrentFbId s' = fb
           \<and> \<not> list_ex is_RmFB pre
           \<and> live_fbs (owned_fbs s) pre = insert fb (owned_fbs s)
           \<and> live_fbs (owned_fbs s)
                (pre @ [DrmModeSetPlane req (drmModeSetPlane_r env),
                        DrmModeRmFB (m_CurrentFbId s)]) = {fb}
           \<and> owned_fbs s' = {fb}"
proof -
  from wf obtain layer where layer: "layers d = [layer]"
    by (rule wf_descriptorD)
  from resolvePlanes_wf [OF wf layer] obtain r t1 where
    r: "resolvePlanes env (m_BackendRenderer s) (objects d) (planes layer) 0 fb_arrays_init
          = Some (r, t1)"
    by blast
  from resolvePlanes_resolved [OF handles layer r] obtain a where a: "r = Some a"
    by blast
  obtain s3 t3 where c: "updateColorProperties env (s\<lparr>m_CurrentFbId := fb\<rparr>) frame = (s3, t3)"
    by (cases "updateColorProperties env (s\<lparr>m_CurrentFbId := fb\<rparr>) frame")
  have s3: "m_CurrentFbId s3 = fb"
    using color_props_fb [of env "s\<lparr>m_CurrentFbId := fb\<rparr>" frame] c by simp
  have q1: "list_all fb_quiet t1"
    using resolvePlanes_quiet [OF r] .
  have q3: "list_all fb_quiet t3"
    using color_props_quiet [of env "s\<lparr>m_CurrentFbId := fb\<rparr>" frame] c by simp
  let ?t0 = "if m_BackendRenderer s then [MapDrmPrimeFrame True] else []"
  let ?u = "if m_BackendRenderer s then [UnmapDrmPrimeFrame] else []"
  let ?pre = "?t0 @ t1 @ [DrmModeAddFB2WithModifiers (addFB2_request frame layer a) err fb]
              @ ?u @ t3"
  let ?req = "setPlane_request s3 frame
                (scaleSourceToDestinationSurface_r env
                   \<lparr> rect_x = 0, rect_y = 0, rect_w = width frame, rect_h = height frame \<rparr>
                   (m_OutputRect s))"
  have eq: "renderFrame env s frame =
              Some (s3, ?pre @ [DrmModeSetPlane ?req (drmModeSetPlane_r env),
                                DrmModeRmFB (m_CurrentFbId s)])"
    using render_committed [OF desc layer r [unfolded a] created c committed] by simp
  have no_rm: "\<not> list_ex is_RmFB ?pre"
    using quiet_no_RmFB [OF q1] quiet_no_RmFB [OF q3] by simp
  have live_pre: "live_fbs (owned_fbs s) ?pre = insert fb (owned_fbs s)"
    using created(2) by (simp add: live_fbs_append live_fbs_quiet [OF q1] live_fbs_quiet [OF q3])
  have live: "live_fbs (owned_fbs s)
                (?pre @ [DrmModeSetPlane ?req (drmModeSetPlane_r env),
                         DrmModeRmFB (m_CurrentFbId s)]) = {fb}"
    unfolding live_fbs_append [of _ ?pre] live_pre
    using fresh by (auto simp: owned_fbs_def)
  have own: "owned_fbs s3 = {fb}"
    using fresh(1) s3 by (simp add: owned_fbs_def)
  have req: "sp_fb_id ?req = fb"
    using s3 by (simp add: setPlane_request_def)
  from eq req s3 no_rm live_pre live own show ?thesis
    by blast
qed

theorem renderFrame_success_witness:
  "frame_descriptor (kernel_ok 42) (showing_renderer True) (nv12_frame COLORSPACE_REC_709 False)
     = Some nv12_descriptor
   \<and> wf_descriptor nv12_descriptor
   \<and> handles_resolved (kernel_ok 42) nv12_descriptor
   \<and> drmModeAddFB2WithModifiers_r (kernel_ok 42) = (0, 42)
   \<and> (42 :: uint32_t) \<noteq> m_CurrentFbId (showing_renderer True)
   \<and> 0 \<le> drmModeSetPlane_r (kernel_ok 42)
   \<and> (\<exists>s' pre req.
         renderFrame (kernel_ok 42) (showing_renderer True) (nv12_frame COLORSPACE_REC_709 False) =
           Some (s', pre @ [DrmModeSetPlane req 0, DrmModeRmFB 9])
         \<and> sp_fb_id req = 42
         \<and> m_CurrentFbId s' = 42
         \<and> \<not> list_ex is_RmFB pre
         \<and> live_fbs {9} pre = {42, 9}
         \<and> live_fbs {9} (pre @ [DrmModeSetPlane req 0, DrmModeRmFB 9]) = {42}
         \<and> owned_fbs s' = {42})"
proof -
  have h1: "frame_descriptor (kernel_ok 42) (showing_renderer True)
              (nv12_frame COLORSPACE_REC_709 False) = Some nv12_descriptor"
    by (simp add: frame_descriptor_def kernel_ok_def showing_renderer_def bound_renderer_def
          DrmRenderer_new_def)
  have h2: "wf_descriptor nv12_descriptor"
    by (simp add: wf_descriptor_def nv12_defs)
  have h3: "handles_resolved (kernel_ok 42) nv12_descriptor"
    by (simp add: handles_resolved_def nv12_defs kernel_ok_def list_all_iff)
  have h4: "drmModeAddFB2WithModifiers_r (kernel_ok 42) = (0, 42)"
    by (simp add: kernel_ok_def)
  have h5: "(42 :: uint32_t) \<noteq> m_CurrentFbId (showing_renderer True)"
    by (simp add: showing_renderer_def)
  have h6: "0 \<le> drmModeSetPlane_r (kernel_ok 42)"
    by (simp add: kernel_ok_def)
  have cur: "m_CurrentFbId (showing_renderer True) = 9" "owned_fbs (showing_renderer True) = {9}"
    and sp: "drmModeSetPlane_r (kernel_ok 42) = 0"
    by (simp_all add: showing_renderer_def owned_fbs_def kernel_ok_def)
  from renderFrame_success [OF h1 h2 h3 h4 _ _ h5 h6]
  have "\<exists>s' pre req.
         renderFrame (kernel_ok 42) (showing_renderer True) (nv12_frame COLORSPACE_REC_709 False) =
           Some (s', pre @ [DrmModeSetPlane req 0, DrmModeRmFB 9])
         \<and> sp_fb_id req = 42
         \<and> m_CurrentFbId s' = 42
         \<and> \<not> list_ex is_RmFB pre
         \<and> live_fbs {9} pre = {42, 9}
         \<and> live_fbs {9} (pre @ [DrmModeSetPlane req 0, DrmModeRmFB 9]) = {42}
         \<and> owned_fbs s' = {42}"
    unfolding cur sp by simp
  with h1 h2 h3 h4 h5 h6 show ?thesis
    by blast
qed

text \<open>
  C2. A render call that has resolved every buffer handle. If the creation of the
  framebuffer fails, the call returns with the renderer unchanged, so with the previously
  current framebuffer identifier; no plane commit is attempted, the plane shows what it
  showed and no framebuffer has come or gone. If the framebuffer is created and the plane
  commit fails, the call ends by destroying the framebuffer just created; it made no other
  commit, the current identifier is the previous one again, the plane shows what it showed,
  and the framebuffers of the device are those from before the call.
\<close>

theorem renderFrame_failure:
  assumes desc: "frame_descriptor env s frame = Some d"
    and wf: "wf_descriptor d"
    and handles: "handles_resolved env d"
    and answer: "drmModeAddFB2WithModifiers_r env = (err, fb)"
  shows "(err < 0 \<longrightarrow>
            (\<exists>t. renderFrame env s frame = Some (s, t)
                 \<and> \<not> list_ex is_SetPlane t
                 \<and> displayed_fb shown t = shown
                 \<and> live_fbs L t = L))
         \<and> (0 \<le> err \<and> drmModeSetPlane_r env < 0 \<longrightarrow>
              (\<exists>s' pre req.
                  renderFrame env s frame =
                    Some (s', pre @ [DrmModeSetPlane req (drmModeSetPlane_r env),
                                     SDL_Log LogError ''drmModeSetPlane() failed: %d'' [],
                                     DrmModeRmFB fb])
                  \<and> sp_fb_id req = fb
                  \<and> \<not> list_ex is_SetPlane pre
                  \<and> m_CurrentFbId s' = m_CurrentFbId s
                  \<and> displayed_fb shown
                       (pre @ [DrmModeSetPlane req (drmModeSetPlane_r env),
                               SDL_Log LogError ''drmModeSetPlane() failed: %d'' [],
                               DrmModeRmFB fb]) = shown
                  \<and> (fb \<notin> L \<longrightarrow>
                       live_fbs L
                         (pre @ [DrmModeSetPlane req (drmModeSetPlane_r env),
                                 SDL_Log LogError ''drmModeSetPlane() failed: %d'' [],
                                 DrmModeRmFB fb]) = L)))"
proof -
  from wf obtain layer where layer: "layers d = [layer]"
    by (rule wf_descriptorD)
  from resolvePlanes_wf [OF wf layer] obtain r t1 where
    r: "resolvePlanes env (m_BackendRenderer s) (objects d) (planes layer) 0 fb_arrays_init
          = Some (r, t1)"
    by blast
  from resolvePlanes_resolved [OF handles layer r] obtain a where a: "r = Some a"
    by blast
  have q1: "list_all fb_quiet t1"
    using resolvePlanes_quiet [OF r] .
  let ?t0 = "if m_BackendRenderer s then [MapDrmPrimeFrame True] else []"
  let ?u = "if m_BackendRenderer s then [UnmapDrmPrimeFrame] else []"
  have creation:
    "\<exists>t. renderFrame env s frame = Some (s, t)
         \<and> \<not> list_ex is_SetPlane t
         \<and> displayed_fb shown t = shown
         \<and> live_fbs L t = L" if neg: "err < 0"
  proof -
    let ?t = "?t0 @ t1 @ [DrmModeAddFB2WithModifiers (addFB2_request frame layer a) err fb]
              @ ?u @ [SDL_Log LogError ''drmModeAddFB2WithModifiers() failed: %d'' []]"
    have eq: "renderFrame env s frame = Some (s, ?t)"
      using render_fb_failed [OF desc layer r [unfolded a] answer neg] .
    have "\<not> list_ex is_SetPlane ?t"
      using quiet_no_SetPlane [OF q1] by simp
    moreover have "displayed_fb shown ?t = shown"
      by (simp add: displayed_fb_append displayed_fb_quiet [OF q1])
    moreover have "live_fbs L ?t = L"
      using neg by (simp add: live_fbs_append live_fbs_quiet [OF q1])
    ultimately show ?thesis
      using eq by (intro exI [of _ ?t] conjI)
  qed
  have commit:
    "\<exists>s' pre req.
        renderFrame env s frame =
          Some (s', pre @ [DrmModeSetPlane req (drmModeSetPlane_r env),
                           SDL_Log LogError ''drmModeSetPlane() failed: %d'' [],
                           DrmModeRmFB fb])
        \<and> sp_fb_id req = fb
        \<and> \<not> list_ex is_SetPlane pre
        \<and> m_CurrentFbId s' = m_CurrentFbId s
        \<and> displayed_fb shown
             (pre @ [DrmModeSetPlane req (drmModeSetPlane_r env),
                     SDL_Log LogError ''drmModeSetPlane() failed: %d'' [],
                     DrmModeRmFB fb]) = shown
        \<and> (fb \<notin> L \<longrightarrow>
             live_fbs L
               (pre @ [DrmModeSetPlane req (drmModeSetPlane_r env),
                       SDL_Log LogError ''drmModeSetPlane() failed: %d'' [],
                       DrmModeRmFB fb]) = L)"
    if pos: "0 \<le> err" and neg: "drmModeSetPlane_r env < 0"
  proof -
    obtain s3 t3 where c: "updateColorProperties env (s\<lparr>m_CurrentFbId := fb\<rparr>) frame = (s3, t3)"
      by (cases "updateColorProperties env (s\<lparr>m_CurrentFbId := fb\<rparr>) frame")
    have s3: "m_CurrentFbId s3 = fb"
      using color_props_fb [of env "s\<lparr>m_CurrentFbId := fb\<rparr>" frame] c by simp
    have q3: "list_all fb_quiet t3"
      using color_props_quiet [of env "s\<lparr>m_CurrentFbId := fb\<rparr>" frame] c by simp
    let ?pre = "?t0 @ t1 @ [DrmModeAddFB2WithModifiers (addFB2_request frame layer a) err fb]
                @ ?u @ t3"
    let ?req = "setPlane_request s3 frame
                  (scaleSourceToDestinationSurface_r env
                     \<lparr> rect_x = 0, rect_y = 0, rect_w = width frame, rect_h = height frame \<rparr>
                     (m_OutputRect s))"
    let ?end = "[DrmModeSetPlane ?req (drmModeSetPlane_r env),
                 SDL_Log LogError ''drmModeSetPlane() failed: %d'' [],
                 DrmModeRmFB fb]"
    have eq: "renderFrame env s frame = Some (s3\<lparr>m_CurrentFbId := m_CurrentFbId s\<rparr>, ?pre @ ?end)"
      using render_commit_failed [OF desc layer r [unfolded a] answer pos c neg] s3 by simp
    have req: "sp_fb_id ?req = fb"
      using s3 by (simp add: setPlane_request_def)
    have no_sp: "\<not> list_ex is_SetPlane ?pre"
      using quiet_no_SetPlane [OF q1] quiet_no_SetPlane [OF q3] by simp
    have shown: "displayed_fb shown (?pre @ ?end) = shown"
      using neg
      by (simp add: displayed_fb_append displayed_fb_quiet [OF q1] displayed_fb_quiet [OF q3])
    have live: "fb \<notin> L \<longrightarrow> live_fbs L (?pre @ ?end) = L"
      using pos
      by (simp add: live_fbs_append live_fbs_quiet [OF q1] live_fbs_quiet [OF q3])
    have cur: "m_CurrentFbId (s3\<lparr>m_CurrentFbId := m_CurrentFbId s\<rparr>) = m_CurrentFbId s"
      by simp
    from eq req no_sp cur shown live show ?thesis
      by (intro exI [of _ "s3\<lparr>m_CurrentFbId := m_CurrentFbId s\<rparr>"] exI [of _ ?pre]
            exI [of _ ?req] conjI)
  qed
  from creation commit show ?thesis
    by blast
qed

theorem renderFrame_failure_witness:
  "(frame_descriptor kernel_addfb_fails (showing_renderer True) (nv12_frame COLORSPACE_REC_709 False)
      = Some nv12_descriptor
    \<and> wf_descriptor nv12_descriptor
    \<and> handles_resolved kernel_addfb_fails nv12_descriptor
    \<and> drmModeAddFB2WithModifiers_r kernel_addfb_fails = (- 22, 0)
    \<and> (\<exists>t. renderFrame kernel_addfb_fails (showing_renderer True) (nv12_frame COLORSPACE_REC_709 False)
               = Some (showing_renderer True, t)
            \<and> \<not> list_ex is_SetPlane t
            \<and> displayed_fb 9 t = 9
            \<and> live_fbs {9} t = {9}))
   \<and> (frame_descriptor kernel_commit_fails (showing_renderer True) (nv12_frame COLORSPACE_REC_709 False)
        = Some nv12_descriptor
      \<and> handles_resolved kernel_commit_fails nv12_descriptor
      \<and> drmModeAddFB2WithModifiers_r kernel_commit_fails = (0, 42)
      \<and> drmModeSetPlane_r kernel_commit_fails < 0
      \<and> (\<exists>s' pre req.
             renderFrame kernel_commit_fails (showing_renderer True) (nv12_frame COLORSPACE_REC_709 False) =
               Some (s', pre @ [DrmModeSetPlane req (- 22),
                                SDL_Log LogError ''drmModeSetPlane() failed: %d'' [],
                                DrmModeRmFB 42])
             \<and> sp_fb_id req = 42
             \<and> \<not> list_ex is_SetPlane pre
             \<and> m_CurrentFbId s' = 9
             \<and> displayed_fb 9
                  (pre @ [DrmModeSetPlane req (- 22),
                          SDL_Log LogError ''drmModeSetPlane() failed: %d'' [],
                          DrmModeRmFB 42]) = 9
             \<and> live_fbs {9}
                  (pre @ [DrmModeSetPlane req (- 22),
                          SDL_Log LogError ''drmModeSetPlane() failed: %d'' [],
                          DrmModeRmFB 42]) = {9}))"
proof -
  have a1: "frame_descriptor kernel_addfb_fails (showing_renderer True) (nv12_frame COLORSPACE_REC_709 False)
              = Some nv12_descriptor"
    by (simp add: frame_descriptor_def kernel_addfb_fails_def kernel_ok_def showing_renderer_def
          bound_renderer_def DrmRenderer_new_def)
  have wf: "wf_descriptor nv12_descriptor"
    by (simp add: wf_descriptor_def nv12_defs)
  have a3: "handles_resolved kernel_addfb_fails nv12_descriptor"
    by (simp add: handles_resolved_def nv12_defs kernel_addfb_fails_def kernel_ok_def
          list_all_iff)
  have a4: "drmModeAddFB2WithModifiers_r kernel_addfb_fails = (- 22, 0)"
    by (simp add: kernel_addfb_fails_def kernel_ok_def)
  have b1: "frame_descriptor kernel_commit_fails (showing_renderer True) (nv12_frame COLORSPACE_REC_709 False)
              = Some nv12_descriptor"
    by (simp add: frame_descriptor_def kernel_commit_fails_def kernel_ok_def showing_renderer_def
          bound_renderer_def DrmRenderer_new_def)
  have b3: "handles_resolved kernel_commit_fails nv12_descriptor"
    by (simp add: handles_resolved_def nv12_defs kernel_commit_fails_def kernel_ok_def
          list_all_iff)
  have b4: "drmModeAddFB2WithModifiers_r kernel_commit_fails = (0, 42)"
    by (simp add: kernel_commit_fails_def kernel_ok_def)
  have b5: "drmModeSetPlane_r kernel_commit_fails = - 22"
    by (simp add: kernel_commit_fails_def kernel_ok_def)
  have cur: "m_CurrentFbId (showing_renderer True) = 9"
    by (simp add: showing_renderer_def)
  from renderFrame_failure [OF a1 wf a3 a4, of 9 "{9}"]
  have first: "\<exists>t. renderFrame kernel_addfb_fails (showing_renderer True) (nv12_frame COLORSPACE_REC_709 False)
                      = Some (showing_renderer True, t)
                    \<and> \<not> list_ex is_SetPlane t
                    \<and> displayed_fb 9 t = 9
                    \<and> live_fbs {9} t = {9}"
    by simp
  from renderFrame_failure [OF b1 wf b3 b4, of 9 "{9}"]
  have second: "\<exists>s' pre req.
             renderFrame kernel_commit_fails (showing_renderer True) (nv12_frame COLORSPACE_REC_709 False) =
               Some (s', pre @ [DrmModeSetPlane req (- 22),
                                SDL_Log LogError ''drmModeSetPlane() failed: %d'' [],
                                DrmModeRmFB 42])
             \<and> sp_fb_id req = 42
             \<and> \<not> list_ex is_SetPlane pre
             \<and> m_CurrentFbId s' = 9
             \<and> displayed_fb 9
                  (pre @ [DrmModeSetPlane req (- 22),
                          SDL_Log LogError ''drmModeSetPlane() failed: %d'' [],
                          DrmModeRmFB 42]) = 9
             \<and> live_fbs {9}
                  (pre @ [DrmModeSetPlane req (- 22),
                          SDL_Log LogError ''drmModeSetPlane() failed: %d'' [],
                          DrmModeRmFB 42]) = {9}"
    by (simp add: b5 cur)
  from a1 wf a3 a4 first b1 b3 b4 b5 second show ?thesis
    by simp
qed

text \<open>
  C3, as the code has it. Two consecutive render calls, the first of which gets past the
  creation of the framebuffer, so that the cache holds the flag and the colorspace of the
  first frame. If the second call gets past the creation of the framebuffer too, its
  writes to plane properties are: the write of the color-range property (to the value of
  the first enum entry named like the frame's range string, when the property and such an
  entry exist) if the full-range flag or the colorspace of the second frame differs from
  that of the first frame, so also when only the colorspace differs; followed by the write
  of the color-encoding property if the colorspace differs; with the same flag and
  colorspace there is no write, and with the same colorspace there is no color-encoding
  write. If the second call ends before that, it writes no property and leaves the cache
  at the values of the first frame, whatever the second frame's flag and colorspace.
\<close>

theorem color_properties_between_frames:
  assumes first: "renderFrame env1 s0 f1 = Some (s1, t1)" "list_ex fb_created t1"
    and second: "renderFrame env2 s1 f2 = Some (s2, t2)"
  shows "(list_ex fb_created t2 \<longrightarrow>
            plane_property_writes t2 =
              (if isFrameFullRange f2 \<noteq> isFrameFullRange f1
                  \<or> getFrameColorspace f2 \<noteq> getFrameColorspace f1
               then enum_write (m_ColorRangeProp s0) (getDrmColorRangeValue f2) else [])
              @ (if getFrameColorspace f2 \<noteq> getFrameColorspace f1
                 then enum_write (m_ColorEncodingProp s0) (getDrmColorEncodingValue f2) else []))
         \<and> (\<not> list_ex fb_created t2 \<longrightarrow>
              plane_property_writes t2 = []
              \<and> m_LastFullRange s2 = isFrameFullRange f1
              \<and> m_LastColorSpace s2 = getFrameColorspace f1)"
proof -
  have cache: "m_LastFullRange s1 = isFrameFullRange f1"
      "m_LastColorSpace s1 = getFrameColorspace f1"
    using renderFrame_cache(1,2) [OF first(1)] first(2) by simp_all
  have props: "m_ColorRangeProp s1 = m_ColorRangeProp s0"
      "m_ColorEncodingProp s1 = m_ColorEncodingProp s0"
    using renderFrame_preserves(2,3) [OF first(1)] by simp_all
  have reached:
    "plane_property_writes t2 =
       (if isFrameFullRange f2 \<noteq> isFrameFullRange f1
           \<or> getFrameColorspace f2 \<noteq> getFrameColorspace f1
        then enum_write (m_ColorRangeProp s0) (getDrmColorRangeValue f2) else [])
       @ (if getFrameColorspace f2 \<noteq> getFrameColorspace f1
          then enum_write (m_ColorEncodingProp s0) (getDrmColorEncodingValue f2) else [])"
    if "list_ex fb_created t2"
    using renderFrame_writes [OF second that] unfolding cache props .
  have ended:
    "plane_property_writes t2 = []
     \<and> m_LastFullRange s2 = isFrameFullRange f1
     \<and> m_LastColorSpace s2 = getFrameColorspace f1"
    if "\<not> list_ex fb_created t2"
    using renderFrame_cases [OF second] that cache by auto
  from reached ended show ?thesis
    by blast
qed

theorem color_properties_between_frames_witness:
  "(\<exists>s1 t1 s2 t2.
      renderFrame (kernel_ok 42) (bound_renderer False) (nv12_frame COLORSPACE_REC_709 False)
        = Some (s1, t1)
      \<and> list_ex fb_created t1
      \<and> renderFrame (kernel_ok 43) s1 (nv12_frame COLORSPACE_REC_2020 False) = Some (s2, t2)
      \<and> list_ex fb_created t2
      \<and> plane_property_writes t2 = [(30, 0), (29, 2)])
   \<and> (\<exists>s1 t1 s2 t2.
        renderFrame (kernel_ok 42) (bound_renderer False) (nv12_frame COLORSPACE_REC_709 False)
          = Some (s1, t1)
        \<and> list_ex fb_created t1
        \<and> renderFrame kernel_addfb_fails s1 (nv12_frame COLORSPACE_REC_2020 True) = Some (s2, t2)
        \<and> \<not> list_ex fb_created t2
        \<and> plane_property_writes t2 = []
        \<and> m_LastFullRange s2 = False
        \<and> m_LastColorSpace s2 = COLORSPACE_REC_709)"
proof -
  obtain s1 t1 where
    first: "renderFrame (kernel_ok 42) (bound_renderer False)
              (nv12_frame COLORSPACE_REC_709 False) = Some (s1, t1)"
      "list_ex fb_created t1"
    using renderFrame_creates
            [OF nv12_inputs(1) [of 42 COLORSPACE_REC_709 False] nv12_inputs(4)
                nv12_inputs(5) [of 42]]
    by (auto simp: nv12_inputs)
  have "m_BackendRenderer s1 = False"
    using renderFrame_preserves(1) [OF first(1)]
    by (simp add: bound_renderer_def DrmRenderer_new_def)
  then have desc:
    "frame_descriptor (kernel_ok 43) s1 (nv12_frame COLORSPACE_REC_2020 False)
       = Some nv12_descriptor"
    "frame_descriptor kernel_addfb_fails s1 (nv12_frame COLORSPACE_REC_2020 True)
       = Some nv12_descriptor"
    by (simp_all add: frame_descriptor_def nv12_frame_def)
  obtain s2 t2 where
    second: "renderFrame (kernel_ok 43) s1 (nv12_frame COLORSPACE_REC_2020 False) = Some (s2, t2)"
      "list_ex fb_created t2"
    using renderFrame_creates [OF desc(1) nv12_inputs(4) nv12_inputs(5) [of 43]]
    by (auto simp: nv12_inputs)
  obtain t3 where
    third: "renderFrame kernel_addfb_fails s1 (nv12_frame COLORSPACE_REC_2020 True)
              = Some (s1, t3)"
      "\<not> list_ex fb_created t3"
    using renderFrame_creation_fails [OF desc(2) nv12_inputs(4) nv12_inputs(6)]
    by (auto simp: nv12_inputs)
  have "plane_property_writes t2 = [(30, 0), (29, 2)]"
    using color_properties_between_frames [OF first second(1)] second(2)
    by (simp add: nv12_frame_def bound_renderer_def DrmRenderer_new_def enum_write_def
          getDrmColorRangeValue_def getDrmColorEncodingValue_def color_range_prop_def
          color_encoding_prop_def COLORSPACE_REC_601_def COLORSPACE_REC_709_def
          COLORSPACE_REC_2020_def)
  moreover have "plane_property_writes t3 = []
                 \<and> m_LastFullRange s1 = False
                 \<and> m_LastColorSpace s1 = COLORSPACE_REC_709"
    using color_properties_between_frames [OF first third(1)] third(2)
    by (simp add: nv12_frame_def)
  ultimately show ?thesis
    using first second third by blast
qed

theorem color_properties_between_frames_counterexample:
  "renderFrame (kernel_ok 42) (bound_renderer False) (nv12_frame COLORSPACE_REC_709 False) \<noteq> None
   \<and> renderFrame kernel_addfb_fails
       (fst (the (renderFrame (kernel_ok 42) (bound_renderer False)
                    (nv12_frame COLORSPACE_REC_709 False))))
       (nv12_frame COLORSPACE_REC_2020 False) \<noteq> None
   \<and> m_LastColorSpace
       (fst (the (renderFrame (kernel_ok 42) (bound_renderer False)
                    (nv12_frame COLORSPACE_REC_709 False))))
     = getFrameColorspace (nv12_frame COLORSPACE_REC_709 False)
   \<and> getFrameColorspace (nv12_frame COLORSPACE_REC_2020 False)
       \<noteq> getFrameColorspace (nv12_frame COLORSPACE_REC_709 False)
   \<and> enum_write
       (m_ColorRangeProp
          (fst (the (renderFrame (kernel_ok 42) (bound_renderer False)
                       (nv12_frame COLORSPACE_REC_709 False)))))
       (getDrmColorRangeValue (nv12_frame COLORSPACE_REC_2020 False)) = [(30, 0)]
   \<and> enum_write
       (m_ColorEncodingProp
          (fst (the (renderFrame (kernel_ok 42) (bound_renderer False)
                       (nv12_frame COLORSPACE_REC_709 False)))))
       (getDrmColorEncodingValue (nv12_frame COLORSPACE_REC_2020 False)) = [(29, 2)]
   \<and> plane_property_writes
       (snd (the (renderFrame kernel_addfb_fails
                    (fst (the (renderFrame (kernel_ok 42) (bound_renderer False)
                                 (nv12_frame COLORSPACE_REC_709 False))))
                    (nv12_frame COLORSPACE_REC_2020 False)))) = []
   \<and> m_LastColorSpace
       (fst (the (renderFrame kernel_addfb_fails
                    (fst (the (renderFrame (kernel_ok 42) (bound_renderer False)
                                 (nv12_frame COLORSPACE_REC_709 False))))
                    (nv12_frame COLORSPACE_REC_2020 False))))
     = COLORSPACE_REC_709"
proof -
  obtain s1 t1 where
    first: "renderFrame (kernel_ok 42) (bound_renderer False)
              (nv12_frame COLORSPACE_REC_709 False) = Some (s1, t1)"
      "list_ex fb_created t1"
    using renderFrame_creates
            [OF nv12_inputs(1) [of 42 COLORSPACE_REC_709 False] nv12_inputs(4)
                nv12_inputs(5) [of 42]]
    by (auto simp: nv12_inputs)
  have s1: "m_BackendRenderer s1 = False"
      "m_ColorRangeProp s1 = Some color_range_prop"
      "m_ColorEncodingProp s1 = Some color_encoding_prop"
    using renderFrame_preserves [OF first(1)]
    by (simp_all add: bound_renderer_def DrmRenderer_new_def)
  have cache: "m_LastColorSpace s1 = COLORSPACE_REC_709"
    using renderFrame_cache(2) [OF first] by (simp add: nv12_frame_def)
  have desc: "frame_descriptor kernel_addfb_fails s1 (nv12_frame COLORSPACE_REC_2020 False)
                = Some nv12_descriptor"
    using s1(1) by (simp add: frame_descriptor_def nv12_frame_def)
  obtain t2 where
    second: "renderFrame kernel_addfb_fails s1 (nv12_frame COLORSPACE_REC_2020 False)
               = Some (s1, t2)"
      "\<not> list_ex fb_created t2"
    using renderFrame_creation_fails [OF desc nv12_inputs(4) nv12_inputs(6)]
    by (auto simp: nv12_inputs)
  have quiet: "plane_property_writes t2 = []"
    using renderFrame_cases [OF second(1)] second(2) by simp
  have range: "enum_write (Some color_range_prop)
                 (getDrmColorRangeValue (nv12_frame COLORSPACE_REC_2020 False)) = [(30, 0)]"
    by (simp add: enum_write_def getDrmColorRangeValue_def nv12_frame_def color_range_prop_def)
  have encoding: "enum_write (Some color_encoding_prop)
                    (getDrmColorEncodingValue (nv12_frame COLORSPACE_REC_2020 False)) = [(29, 2)]"
    by (simp add: enum_write_def getDrmColorEncodingValue_def nv12_frame_def
          color_encoding_prop_def COLORSPACE_REC_601_def COLORSPACE_REC_709_def
          COLORSPACE_REC_2020_def)
  have differ: "getFrameColorspace (nv12_frame COLORSPACE_REC_2020 False)
                  \<noteq> getFrameColorspace (nv12_frame COLORSPACE_REC_709 False)"
    by (simp add: nv12_frame_def COLORSPACE_REC_709_def COLORSPACE_REC_2020_def)
  have previous: "getFrameColorspace (nv12_frame COLORSPACE_REC_709 False) = COLORSPACE_REC_709"
    by (simp add: nv12_frame_def)
  show ?thesis
    unfolding first(1) option.sel fst_conv snd_conv second(1) s1 previous
    using cache differ [unfolded previous] range encoding quiet by simp
qed

text \<open>
  C4. A renderer whose device has the HDR metadata property, and any sequence of
  \<open>setHdrMode\<close> calls on it, on a kernel that gives a blob it creates a non-zero
  identifier. Starting with the blobs the renderer holds, at no moment of the sequence is
  there more than one blob, and at its end the blobs are those the renderer holds. A call
  made while a blob is held begins by destroying it, before it creates or applies anything.
  A call that disables HDR writes the value 0 to the connector's property, after the
  destruction of the blob if there was one and as its first action if there was none.
\<close>

theorem hdr_blob_lifecycle:
  assumes hdr: "m_HdrOutputMetadataProp s = Some prop"
    and kernel: "list_all (\<lambda>(env, enabled). 0 \<le> fst (drmModeCreatePropertyBlob_r env) \<longrightarrow>
                             snd (drmModeCreatePropertyBlob_r env) \<noteq> 0) calls"
  shows "peak_blobs (owned_blobs s) (snd (setHdrMode_calls s calls)) \<le> 1
         \<and> live_blobs (owned_blobs s) (snd (setHdrMode_calls s calls))
             = owned_blobs (fst (setHdrMode_calls s calls))
         \<and> (m_HdrOutputMetadataBlobId s \<noteq> 0 \<longrightarrow>
              (\<exists>rest. snd (setHdrMode env s enabled) =
                        DrmModeDestroyPropertyBlob (m_HdrOutputMetadataBlobId s) # rest))
         \<and> (\<exists>err. snd (setHdrMode env s False) =
                     (if m_HdrOutputMetadataBlobId s \<noteq> 0
                      then [DrmModeDestroyPropertyBlob (m_HdrOutputMetadataBlobId s)] else [])
                     @ [DrmModeObjectSetProperty (m_ConnectorId s) DRM_MODE_OBJECT_CONNECTOR
                          (prop_id prop) 0 err,
                        if err = 0
                        then SDL_Log LogInfo ''Set display HDR mode: %s'' [''disabled'']
                        else SDL_Log LogError ''drmModeObjectSetProperty(%s) failed: %d''
                               [prop_name prop]])"
proof -
  have destroy_first:
    "m_HdrOutputMetadataBlobId s \<noteq> 0 \<longrightarrow>
       (\<exists>rest. snd (setHdrMode env s enabled) =
                 DrmModeDestroyPropertyBlob (m_HdrOutputMetadataBlobId s) # rest)"
    using hdr by (simp add: setHdrMode_def Let_def split_def)
  have disable:
    "\<exists>err. snd (setHdrMode env s False) =
              (if m_HdrOutputMetadataBlobId s \<noteq> 0
               then [DrmModeDestroyPropertyBlob (m_HdrOutputMetadataBlobId s)] else [])
              @ [DrmModeObjectSetProperty (m_ConnectorId s) DRM_MODE_OBJECT_CONNECTOR
                   (prop_id prop) 0 err,
                 if err = 0
                 then SDL_Log LogInfo ''Set display HDR mode: %s'' [''disabled'']
                 else SDL_Log LogError ''drmModeObjectSetProperty(%s) failed: %d''
                        [prop_name prop]]"
    using hdr by (simp add: setHdrMode_def Let_def)
  from setHdrMode_calls_blobs [OF hdr kernel] destroy_first disable show ?thesis
    by blast
qed

theorem hdr_blob_lifecycle_witness:
  "m_HdrOutputMetadataProp (bound_renderer False) = Some hdr_prop
   \<and> list_all (\<lambda>(env, enabled). 0 \<le> fst (drmModeCreatePropertyBlob_r env) \<longrightarrow>
                  snd (drmModeCreatePropertyBlob_r env) \<noteq> 0)
        [(kernel_ok 7, True), (kernel_ok 8, True), (kernel_ok 9, False)]
   \<and> peak_blobs []
        (snd (setHdrMode_calls (bound_renderer False)
                [(kernel_ok 7, True), (kernel_ok 8, True), (kernel_ok 9, False)])) \<le> 1
   \<and> live_blobs []
        (snd (setHdrMode_calls (bound_renderer False)
                [(kernel_ok 7, True), (kernel_ok 8, True), (kernel_ok 9, False)])) = []
   \<and> m_HdrOutputMetadataBlobId ((bound_renderer False)\<lparr>m_HdrOutputMetadataBlobId := 7\<rparr>) \<noteq> 0
   \<and> (\<exists>rest. snd (setHdrMode (kernel_ok 8)
                     ((bound_renderer False)\<lparr>m_HdrOutputMetadataBlobId := 7\<rparr>) True) =
                DrmModeDestroyPropertyBlob 7 # rest)"
proof -
  have h1: "m_HdrOutputMetadataProp (bound_renderer False) = Some hdr_prop"
    by (simp add: bound_renderer_def)
  have h2: "list_all (\<lambda>(env, enabled). 0 \<le> fst (drmModeCreatePropertyBlob_r env) \<longrightarrow>
                        snd (drmModeCreatePropertyBlob_r env) \<noteq> 0)
              [(kernel_ok 7, True), (kernel_ok 8, True), (kernel_ok 9, False)]"
    by (simp add: kernel_ok_def)
  have h3: "m_HdrOutputMetadataProp ((bound_renderer False)\<lparr>m_HdrOutputMetadataBlobId := 7\<rparr>)
              = Some hdr_prop"
    by (simp add: bound_renderer_def)
  have h4: "list_all (\<lambda>(env, enabled). 0 \<le> fst (drmModeCreatePropertyBlob_r env) \<longrightarrow>
                        snd (drmModeCreatePropertyBlob_r env) \<noteq> 0) []"
    by simp
  have own: "owned_blobs (bound_renderer False) = []"
    by (simp add: owned_blobs_def bound_renderer_def DrmRenderer_new_def)
  have final: "owned_blobs
                 (fst (setHdrMode_calls (bound_renderer False)
                         [(kernel_ok 7, True), (kernel_ok 8, True), (kernel_ok 9, False)])) = []"
    by (simp add: owned_blobs_def setHdrMode_def bound_renderer_def DrmRenderer_new_def
          kernel_ok_def Let_def)
  have held: "m_HdrOutputMetadataBlobId ((bound_renderer False)\<lparr>m_HdrOutputMetadataBlobId := 7\<rparr>)
                = 7"
    by simp
  then have nz: "m_HdrOutputMetadataBlobId
                   ((bound_renderer False)\<lparr>m_HdrOutputMetadataBlobId := 7\<rparr>) \<noteq> 0"
    by simp
  from hdr_blob_lifecycle [OF h1 h2, of "kernel_ok 8" True, unfolded own final]
  have blobs:
    "peak_blobs []
       (snd (setHdrMode_calls (bound_renderer False)
               [(kernel_ok 7, True), (kernel_ok 8, True), (kernel_ok 9, False)])) \<le> 1"
    "live_blobs []
       (snd (setHdrMode_calls (bound_renderer False)
               [(kernel_ok 7, True), (kernel_ok 8, True), (kernel_ok 9, False)])) = []"
    by blast+
  from hdr_blob_lifecycle [OF h3 h4, of "kernel_ok 8" True] nz
  have "\<exists>rest. snd (setHdrMode (kernel_ok 8)
                      ((bound_renderer False)\<lparr>m_HdrOutputMetadataBlobId := 7\<rparr>) True) =
                 DrmModeDestroyPropertyBlob
                   (m_HdrOutputMetadataBlobId
                      ((bound_renderer False)\<lparr>m_HdrOutputMetadataBlobId := 7\<rparr>)) # rest"
    by blast
  then have destroyed:
    "\<exists>rest. snd (setHdrMode (kernel_ok 8)
                    ((bound_renderer False)\<lparr>m_HdrOutputMetadataBlobId := 7\<rparr>) True) =
               DrmModeDestroyPropertyBlob 7 # rest"
    unfolding held .
  from h1 h2 blobs nz destroyed show ?thesis
    by blast
qed

text \<open>
  C5, as the code has it. \<open>initialize\<close> always reports that this presentation path is
  unavailable and leaves the renderer as it was: it binds no device handle and no
  identifier and enumerates no property.
\<close>

theorem initialize_unavailable:
  "initialize s params = (False, s)"
  by (simp add: initialize_def)

theorem initialize_binds_counterexample:
  "fst (initialize (DrmRenderer_new False) ()) = False
   \<and> m_DrmFd (snd (initialize (DrmRenderer_new False) ())) = - 1
   \<and> m_ConnectorId (snd (initialize (DrmRenderer_new False) ())) = 0
   \<and> m_EncoderId (snd (initialize (DrmRenderer_new False) ())) = 0
   \<and> m_CrtcId (snd (initialize (DrmRenderer_new False) ())) = 0
   \<and> m_PlaneId (snd (initialize (DrmRenderer_new False) ())) = 0
   \<and> m_ColorEncodingProp (snd (initialize (DrmRenderer_new False) ())) = None
   \<and> m_ColorRangeProp (snd (initialize (DrmRenderer_new False) ())) = None
   \<and> m_HdrOutputMetadataProp (snd (initialize (DrmRenderer_new False) ())) = None"
  by (simp add: initialize_def DrmRenderer_new_def)

text \<open>
  C6, as the code has it. A render call that gets past the creation of the framebuffer
  leaves the frame's full-range flag and colorspace in the cache, whether or not it
  attempted a property write; a render call that ends before that leaves the cache as it
  was.
\<close>

theorem color_cache_update:
  assumes "renderFrame env s frame = Some (s', t)"
  shows "(list_ex fb_created t \<longrightarrow>
            m_LastFullRange s' = isFrameFullRange frame
            \<and> m_LastColorSpace s' = getFrameColorspace frame)
         \<and> (\<not> list_ex fb_created t \<longrightarrow>
              m_LastFullRange s' = m_LastFullRange s
              \<and> m_LastColorSpace s' = m_LastColorSpace s)"
  using renderFrame_cache [OF assms] by auto

theorem color_cache_update_witness:
  "(\<exists>s' t. renderFrame (kernel_ok 42) (DrmRenderer_new False) (nv12_frame COLORSPACE_REC_709 True) = Some (s', t)
            \<and> list_ex fb_created t
            \<and> m_LastFullRange s' = True \<and> m_LastColorSpace s' = COLORSPACE_REC_709)
   \<and> (\<exists>s' t. renderFrame kernel_addfb_fails (DrmRenderer_new False) (nv12_frame COLORSPACE_REC_709 True)
                 = Some (s', t)
              \<and> \<not> list_ex fb_created t
              \<and> m_LastFullRange s' = False \<and> m_LastColorSpace s' = - 1)"
proof -
  obtain s1 t1 where
    r1: "renderFrame (kernel_ok 42) (DrmRenderer_new False) (nv12_frame COLORSPACE_REC_709 True) = Some (s1, t1)"
      "list_ex fb_created t1"
    using renderFrame_creates
            [OF nv12_inputs(2) [of 42 COLORSPACE_REC_709 True] nv12_inputs(4) nv12_inputs(5) [of 42]]
    by (auto simp: nv12_inputs)
  obtain t2 where
    r2: "renderFrame kernel_addfb_fails (DrmRenderer_new False) (nv12_frame COLORSPACE_REC_709 True)
           = Some (DrmRenderer_new False, t2)"
      "\<not> list_ex fb_created t2"
    using renderFrame_creation_fails
            [OF nv12_inputs(3) [of COLORSPACE_REC_709 True] nv12_inputs(4) nv12_inputs(6)]
    by (auto simp: nv12_inputs)
  have "m_LastFullRange s1 = True \<and> m_LastColorSpace s1 = COLORSPACE_REC_709"
    using color_cache_update [OF r1(1)] r1(2) by (simp add: nv12_frame_def)
  moreover have "m_LastFullRange (DrmRenderer_new False) = False
                 \<and> m_LastColorSpace (DrmRenderer_new False) = - 1"
    using color_cache_update [OF r2(1)] r2(2) by (simp add: DrmRenderer_new_def)
  ultimately show ?thesis
    using r1 r2 by blast
qed

theorem color_cache_update_counterexample:
  "m_ColorRangeProp (DrmRenderer_new False) = None
   \<and> m_ColorEncodingProp (DrmRenderer_new False) = None
   \<and> renderFrame (kernel_ok 42) (DrmRenderer_new False) (nv12_frame COLORSPACE_REC_709 True) \<noteq> None
   \<and> plane_property_writes
       (snd (the (renderFrame (kernel_ok 42) (DrmRenderer_new False) (nv12_frame COLORSPACE_REC_709 True)))) = []
   \<and> m_LastFullRange (DrmRenderer_new False) = False
   \<and> m_LastFullRange
       (fst (the (renderFrame (kernel_ok 42) (DrmRenderer_new False) (nv12_frame COLORSPACE_REC_709 True)))) = True
   \<and> m_LastColorSpace (DrmRenderer_new False) = - 1
   \<and> m_LastColorSpace
       (fst (the (renderFrame (kernel_ok 42) (DrmRenderer_new False) (nv12_frame COLORSPACE_REC_709 True)))) = COLORSPACE_REC_709
   \<and> COLORSPACE_REC_709 \<noteq> - 1"
proof -
  obtain s' t where
    r: "renderFrame (kernel_ok 42) (DrmRenderer_new False) (nv12_frame COLORSPACE_REC_709 True) = Some (s', t)"
      "list_ex fb_created t"
    using renderFrame_creates
            [OF nv12_inputs(2) [of 42 COLORSPACE_REC_709 True] nv12_inputs(4) nv12_inputs(5) [of 42]]
    by (auto simp: nv12_inputs)
  have "plane_property_writes t = []"
    using renderFrame_writes [OF r]
    by (simp add: DrmRenderer_new_def enum_write_def)
  moreover have "m_LastFullRange s' = True" "m_LastColorSpace s' = COLORSPACE_REC_709"
    using renderFrame_cache(1,2) [OF r(1)] r(2) by (simp_all add: nv12_frame_def)
  ultimately show ?thesis
    using r(1) by (simp add: DrmRenderer_new_def COLORSPACE_REC_709_def)
qed

text \<open>
  C7. The export of a frame with one layer and exactly two planes whose objects have
  modifiers other than DRM_FORMAT_MOD_INVALID builds this attribute list: format, width,
  height; for plane 0 and then for plane 1 the file descriptor, offset and pitch,
  followed, when the modifier extension is available, by the two words of the modifier
  and, when it is not, by nothing; one colorspace hint when the colorspace is BT.601,
  BT.709 or BT.2020 and none otherwise; one range hint; the terminating EGL_NONE. The two
  words of a modifier \<open>m\<close> are its low and its high 32 bits, each as a signed 32-bit
  integer: the signed reading of \<open>uint m\<close> cut to 32 bits, and that of \<open>uint m\<close>
  divided by \<open>2 ^ 32\<close>.
\<close>

theorem exportEGLImages_two_planes:
  assumes desc: "drm_prime frame = Some d"
    and layer: "layers d = [layer]"
    and two: "planes layer = [p0, p1]"
    and index0: "0 \<le> object_index p0" "object_index p0 < int (length (objects d))"
    and index1: "0 \<le> object_index p1" "object_index p1 < int (length (objects d))"
    and modifier0: "format_modifier (objects d ! nat (object_index p0)) \<noteq> DRM_FORMAT_MOD_INVALID"
    and modifier1: "format_modifier (objects d ! nat (object_index p1)) \<noteq> DRM_FORMAT_MOD_INVALID"
  shows "exportEGLImages_attribs s frame =
     Some ([EGL_LINUX_DRM_FOURCC_EXT, uint (format layer),
            EGL_WIDTH, width frame,
            EGL_HEIGHT, height frame]
           @ [EGL_DMA_BUF_PLANE0_FD_EXT, fd (objects d ! nat (object_index p0)),
              EGL_DMA_BUF_PLANE0_OFFSET_EXT, offset p0,
              EGL_DMA_BUF_PLANE0_PITCH_EXT, pitch p0]
           @ (if m_EGLExtDmaBuf s
              then [EGL_DMA_BUF_PLANE0_MODIFIER_LO_EXT,
                    sint (word_of_int
                            (uint (format_modifier (objects d ! nat (object_index p0))))
                          :: 32 word),
                    EGL_DMA_BUF_PLANE0_MODIFIER_HI_EXT,
                    sint (word_of_int
                            (uint (format_modifier (objects d ! nat (object_index p0)))
                             div 2 ^ 32)
                          :: 32 word)]
              else [])
           @ [EGL_DMA_BUF_PLANE1_FD_EXT, fd (objects d ! nat (object_index p1)),
              EGL_DMA_BUF_PLANE1_OFFSET_EXT, offset p1,
              EGL_DMA_BUF_PLANE1_PITCH_EXT, pitch p1]
           @ (if m_EGLExtDmaBuf s
              then [EGL_DMA_BUF_PLANE1_MODIFIER_LO_EXT,
                    sint (word_of_int
                            (uint (format_modifier (objects d ! nat (object_index p1))))
                          :: 32 word),
                    EGL_DMA_BUF_PLANE1_MODIFIER_HI_EXT,
                    sint (word_of_int
                            (uint (format_modifier (objects d ! nat (object_index p1)))
                             div 2 ^ 32)
                          :: 32 word)]
              else [])
           @ (if getFrameColorspace frame = COLORSPACE_REC_601
              then [EGL_YUV_COLOR_SPACE_HINT_EXT, EGL_ITU_REC601_EXT]
              else if getFrameColorspace frame = COLORSPACE_REC_709
              then [EGL_YUV_COLOR_SPACE_HINT_EXT, EGL_ITU_REC709_EXT]
              else if getFrameColorspace frame = COLORSPACE_REC_2020
              then [EGL_YUV_COLOR_SPACE_HINT_EXT, EGL_ITU_REC2020_EXT]
              else [])
           @ [EGL_SAMPLE_RANGE_HINT_EXT,
              if isFrameFullRange frame then EGL_YUV_FULL_RANGE_EXT else EGL_YUV_NARROW_RANGE_EXT]
           @ [EGL_NONE])"
proof -
  have "plane_attribs (m_EGLExtDmaBuf s) (objects d) 0 [p0, p1] =
          Some ([EGL_DMA_BUF_PLANE0_FD_EXT, fd (objects d ! nat (object_index p0)),
                 EGL_DMA_BUF_PLANE0_OFFSET_EXT, offset p0,
                 EGL_DMA_BUF_PLANE0_PITCH_EXT, pitch p0]
                @ (if m_EGLExtDmaBuf s
                   then [EGL_DMA_BUF_PLANE0_MODIFIER_LO_EXT,
                         modifier_lo (format_modifier (objects d ! nat (object_index p0))),
                         EGL_DMA_BUF_PLANE0_MODIFIER_HI_EXT,
                         modifier_hi (format_modifier (objects d ! nat (object_index p0)))]
                   else [])
                @ [EGL_DMA_BUF_PLANE1_FD_EXT, fd (objects d ! nat (object_index p1)),
                   EGL_DMA_BUF_PLANE1_OFFSET_EXT, offset p1,
                   EGL_DMA_BUF_PLANE1_PITCH_EXT, pitch p1]
                @ (if m_EGLExtDmaBuf s
                   then [EGL_DMA_BUF_PLANE1_MODIFIER_LO_EXT,
                         modifier_lo (format_modifier (objects d ! nat (object_index p1))),
                         EGL_DMA_BUF_PLANE1_MODIFIER_HI_EXT,
                         modifier_hi (format_modifier (objects d ! nat (object_index p1)))]
                   else []))"
    using index0 index1 modifier0 modifier1 by (simp add: Let_def)
  with desc layer two show ?thesis
    unfolding modifier_lo_eq modifier_hi_eq
    by (simp add: exportEGLImages_attribs_def)
qed

theorem exportEGLImages_two_planes_witness:
  "drm_prime tiled_frame = Some tiled_descriptor
   \<and> layers tiled_descriptor = [tiled_layer]
   \<and> planes tiled_layer = [tiled_luma, tiled_chroma]
   \<and> format_modifier (objects tiled_descriptor ! nat (object_index tiled_luma))
       = 0x0100000000000001
   \<and> format_modifier (objects tiled_descriptor ! nat (object_index tiled_chroma))
       = 0x0200000080000003
   \<and> (0x0100000000000001 :: uint64_t) \<noteq> DRM_FORMAT_MOD_INVALID
   \<and> (0x0200000080000003 :: uint64_t) \<noteq> DRM_FORMAT_MOD_INVALID
   \<and> exportEGLImages_attribs ((bound_renderer False)\<lparr>m_EGLExtDmaBuf := True\<rparr>) tiled_frame =
     Some [EGL_LINUX_DRM_FOURCC_EXT, 0x3231564E, EGL_WIDTH, 1920, EGL_HEIGHT, 1080,
           EGL_DMA_BUF_PLANE0_FD_EXT, 5,
           EGL_DMA_BUF_PLANE0_OFFSET_EXT, 0,
           EGL_DMA_BUF_PLANE0_PITCH_EXT, 2048,
           EGL_DMA_BUF_PLANE0_MODIFIER_LO_EXT, 1,
           EGL_DMA_BUF_PLANE0_MODIFIER_HI_EXT, 16777216,
           EGL_DMA_BUF_PLANE1_FD_EXT, 6,
           EGL_DMA_BUF_PLANE1_OFFSET_EXT, 4096,
           EGL_DMA_BUF_PLANE1_PITCH_EXT, 1024,
           EGL_DMA_BUF_PLANE1_MODIFIER_LO_EXT, - 2147483645,
           EGL_DMA_BUF_PLANE1_MODIFIER_HI_EXT, 33554432,
           EGL_YUV_COLOR_SPACE_HINT_EXT, EGL_ITU_REC709_EXT,
           EGL_SAMPLE_RANGE_HINT_EXT, EGL_YUV_NARROW_RANGE_EXT,
           EGL_NONE]
   \<and> exportEGLImages_attribs (bound_renderer False) tiled_frame =
     Some [EGL_LINUX_DRM_FOURCC_EXT, 0x3231564E, EGL_WIDTH, 1920, EGL_HEIGHT, 1080,
           EGL_DMA_BUF_PLANE0_FD_EXT, 5,
           EGL_DMA_BUF_PLANE0_OFFSET_EXT, 0,
           EGL_DMA_BUF_PLANE0_PITCH_EXT, 2048,
           EGL_DMA_BUF_PLANE1_FD_EXT, 6,
           EGL_DMA_BUF_PLANE1_OFFSET_EXT, 4096,
           EGL_DMA_BUF_PLANE1_PITCH_EXT, 1024,
           EGL_YUV_COLOR_SPACE_HINT_EXT, EGL_ITU_REC709_EXT,
           EGL_SAMPLE_RANGE_HINT_EXT, EGL_YUV_NARROW_RANGE_EXT,
           EGL_NONE]"
proof -
  have h1: "drm_prime tiled_frame = Some tiled_descriptor"
    by (simp add: tiled_frame_def)
  have h2: "layers tiled_descriptor = [tiled_layer]"
    by (simp add: tiled_descriptor_def)
  have h3: "planes tiled_layer = [tiled_luma, tiled_chroma]"
    by (simp add: tiled_layer_def)
  have h4: "0 \<le> object_index tiled_luma"
      "object_index tiled_luma < int (length (objects tiled_descriptor))"
    by (simp_all add: tiled_defs)
  have h5: "0 \<le> object_index tiled_chroma"
      "object_index tiled_chroma < int (length (objects tiled_descriptor))"
    by (simp_all add: tiled_defs)
  have m0: "format_modifier (objects tiled_descriptor ! nat (object_index tiled_luma))
              = 0x0100000000000001"
    by (simp add: tiled_defs)
  have m1: "format_modifier (objects tiled_descriptor ! nat (object_index tiled_chroma))
              = 0x0200000080000003"
    by (simp add: tiled_defs)
  have v0: "(0x0100000000000001 :: uint64_t) \<noteq> DRM_FORMAT_MOD_INVALID"
    by (simp add: DRM_FORMAT_MOD_INVALID_def)
  have v1: "(0x0200000080000003 :: uint64_t) \<noteq> DRM_FORMAT_MOD_INVALID"
    by (simp add: DRM_FORMAT_MOD_INVALID_def)
  have h6: "format_modifier (objects tiled_descriptor ! nat (object_index tiled_luma))
              \<noteq> DRM_FORMAT_MOD_INVALID"
    unfolding m0 by (rule v0)
  have h7: "format_modifier (objects tiled_descriptor ! nat (object_index tiled_chroma))
              \<noteq> DRM_FORMAT_MOD_INVALID"
    unfolding m1 by (rule v1)
  have ext: "m_EGLExtDmaBuf ((bound_renderer False)\<lparr>m_EGLExtDmaBuf := True\<rparr>)"
      "\<not> m_EGLExtDmaBuf (bound_renderer False)"
    by (simp_all add: bound_renderer_def DrmRenderer_new_def)
  have fields: "fd (objects tiled_descriptor ! nat (object_index tiled_luma)) = 5"
      "fd (objects tiled_descriptor ! nat (object_index tiled_chroma)) = 6"
      "offset tiled_luma = 0" "pitch tiled_luma = 2048"
      "offset tiled_chroma = 4096" "pitch tiled_chroma = 1024"
      "uint (format tiled_layer) = 0x3231564E"
      "width tiled_frame = 1920" "height tiled_frame = 1080"
      "getFrameColorspace tiled_frame = COLORSPACE_REC_709"
      "\<not> isFrameFullRange tiled_frame"
      "COLORSPACE_REC_709 \<noteq> COLORSPACE_REC_601"
    by (simp_all add: tiled_defs tiled_frame_def COLORSPACE_REC_709_def COLORSPACE_REC_601_def)
  have "words": "sint (word_of_int (uint (0x0100000000000001 :: uint64_t)) :: 32 word) = 1"
      "sint (word_of_int (uint (0x0100000000000001 :: uint64_t) div 2 ^ 32) :: 32 word)
         = 16777216"
      "sint (word_of_int (uint (0x0200000080000003 :: uint64_t)) :: 32 word) = - 2147483645"
      "sint (word_of_int (uint (0x0200000080000003 :: uint64_t) div 2 ^ 32) :: 32 word)
         = 33554432"
    by simp_all
  have with_ext:
    "exportEGLImages_attribs ((bound_renderer False)\<lparr>m_EGLExtDmaBuf := True\<rparr>) tiled_frame =
     Some [EGL_LINUX_DRM_FOURCC_EXT, 0x3231564E, EGL_WIDTH, 1920, EGL_HEIGHT, 1080,
           EGL_DMA_BUF_PLANE0_FD_EXT, 5,
           EGL_DMA_BUF_PLANE0_OFFSET_EXT, 0,
           EGL_DMA_BUF_PLANE0_PITCH_EXT, 2048,
           EGL_DMA_BUF_PLANE0_MODIFIER_LO_EXT, 1,
           EGL_DMA_BUF_PLANE0_MODIFIER_HI_EXT, 16777216,
           EGL_DMA_BUF_PLANE1_FD_EXT, 6,
           EGL_DMA_BUF_PLANE1_OFFSET_EXT, 4096,
           EGL_DMA_BUF_PLANE1_PITCH_EXT, 1024,
           EGL_DMA_BUF_PLANE1_MODIFIER_LO_EXT, - 2147483645,
           EGL_DMA_BUF_PLANE1_MODIFIER_HI_EXT, 33554432,
           EGL_YUV_COLOR_SPACE_HINT_EXT, EGL_ITU_REC709_EXT,
           EGL_SAMPLE_RANGE_HINT_EXT, EGL_YUV_NARROW_RANGE_EXT,
           EGL_NONE]"
    using exportEGLImages_two_planes [OF h1 h2 h3 h4 h5 h6 h7,
            of "(bound_renderer False)\<lparr>m_EGLExtDmaBuf := True\<rparr>"]
    unfolding m0 m1 "words" fields by (simp add: ext fields)
  have without_ext:
    "exportEGLImages_attribs (bound_renderer False) tiled_frame =
     Some [EGL_LINUX_DRM_FOURCC_EXT, 0x3231564E, EGL_WIDTH, 1920, EGL_HEIGHT, 1080,
           EGL_DMA_BUF_PLANE0_FD_EXT, 5,
           EGL_DMA_BUF_PLANE0_OFFSET_EXT, 0,
           EGL_DMA_BUF_PLANE0_PITCH_EXT, 2048,
           EGL_DMA_BUF_PLANE1_FD_EXT, 6,
           EGL_DMA_BUF_PLANE1_OFFSET_EXT, 4096,
           EGL_DMA_BUF_PLANE1_PITCH_EXT, 1024,
           EGL_YUV_COLOR_SPACE_HINT_EXT, EGL_ITU_REC709_EXT,
           EGL_SAMPLE_RANGE_HINT_EXT, EGL_YUV_NARROW_RANGE_EXT,
           EGL_NONE]"
    using exportEGLImages_two_planes [OF h1 h2 h3 h4 h5 h6 h7, of "bound_renderer False"]
    unfolding fields by (simp add: ext fields)
  from h1 h2 h3 m0 m1 v0 v1 with_ext without_ext show ?thesis
    by (intro conjI)
qed

text \<open>
  C8. With a backend whose map operation succeeds on the frame (the mapped descriptor
  having one layer, at most four planes and valid object indices): a render call returns,
  and after the map its trace has exactly one unmap, whichever way the call ends: a
  buffer handle that cannot be resolved, a framebuffer creation that fails, a commit that
  fails or a commit that succeeds. A test-render call returns true with exactly one unmap
  after the map.
\<close>

theorem unmap_exactly_once:
  assumes backend: "m_BackendRenderer s"
    and mapped: "mapDrmPrimeFrame_r env = Some d"
    and wf: "wf_descriptor d"
    and export: "canExportDrmPrime_r env"
  shows "(\<exists>s' t. renderFrame env s frame = Some (s', MapDrmPrimeFrame True # t)
                  \<and> count_list t UnmapDrmPrimeFrame = 1)
         \<and> (\<exists>t. testRenderFrame env s frame = Some (True, MapDrmPrimeFrame True # t)
                  \<and> count_list t UnmapDrmPrimeFrame = 1)"
proof -
  from backend mapped have desc: "frame_descriptor env s frame = Some d"
    by (simp add: frame_descriptor_def)
  from wf obtain layer where layer: "layers d = [layer]"
    by (rule wf_descriptorD)
  from resolvePlanes_wf [OF wf layer] obtain r t1 where
    r: "resolvePlanes env (m_BackendRenderer s) (objects d) (planes layer) 0 fb_arrays_init
          = Some (r, t1)"
    by blast
  have u1: "count_list t1 UnmapDrmPrimeFrame = (if r = None then 1 else 0)"
    using resolvePlanes_unmap [OF r] backend by simp
  obtain err fb where answer: "drmModeAddFB2WithModifiers_r env = (err, fb)"
    by (cases "drmModeAddFB2WithModifiers_r env")
  obtain s3 t3 where c: "updateColorProperties env (s\<lparr>m_CurrentFbId := fb\<rparr>) frame = (s3, t3)"
    by (cases "updateColorProperties env (s\<lparr>m_CurrentFbId := fb\<rparr>) frame")
  have u3: "count_list t3 UnmapDrmPrimeFrame = 0"
    using color_props_unmap [of env "s\<lparr>m_CurrentFbId := fb\<rparr>" frame] c by simp
  have render: "\<exists>s' t. renderFrame env s frame = Some (s', MapDrmPrimeFrame True # t)
                        \<and> count_list t UnmapDrmPrimeFrame = 1"
  proof (cases r)
    case None
    with render_handles_failed [OF desc layer r [unfolded None]] u1 backend show ?thesis
      by simp
  next
    case (Some a)
    note ok = r [unfolded Some]
    consider (fb_failed) "err < 0"
      | (commit_failed) "0 \<le> err" "drmModeSetPlane_r env < 0"
      | (committed) "0 \<le> err" "0 \<le> drmModeSetPlane_r env"
      by linarith
    then show ?thesis
    proof cases
      case fb_failed
      with render_fb_failed [OF desc layer ok answer] u1 Some backend show ?thesis
        by simp
    next
      case commit_failed
      with render_commit_failed [OF desc layer ok answer _ c] u1 u3 Some backend show ?thesis
        by simp
    next
      case committed
      with render_committed [OF desc layer ok answer _ c] u1 u3 Some backend show ?thesis
        by simp
    qed
  qed
  have test: "\<exists>t. testRenderFrame env s frame = Some (True, MapDrmPrimeFrame True # t)
                   \<and> count_list t UnmapDrmPrimeFrame = 1"
    using backend mapped export by (simp add: testRenderFrame_def)
  from render test show ?thesis ..
qed

theorem unmap_exactly_once_witness:
  "m_BackendRenderer (bound_renderer True)
   \<and> mapDrmPrimeFrame_r (kernel_ok 42) = Some nv12_descriptor
   \<and> wf_descriptor nv12_descriptor
   \<and> canExportDrmPrime_r (kernel_ok 42)
   \<and> (\<exists>s' t. renderFrame (kernel_ok 42) (bound_renderer True) (nv12_frame COLORSPACE_REC_709 False)
                 = Some (s', MapDrmPrimeFrame True # t)
               \<and> count_list t UnmapDrmPrimeFrame = 1)
   \<and> (\<exists>t. testRenderFrame (kernel_ok 42) (bound_renderer True) (nv12_frame COLORSPACE_REC_709 False)
              = Some (True, MapDrmPrimeFrame True # t)
            \<and> count_list t UnmapDrmPrimeFrame = 1)"
proof -
  have h1: "m_BackendRenderer (bound_renderer True)"
    by (simp add: bound_renderer_def DrmRenderer_new_def)
  have h2: "mapDrmPrimeFrame_r (kernel_ok 42) = Some nv12_descriptor"
    by (simp add: kernel_ok_def)
  have h3: "wf_descriptor nv12_descriptor"
    by (simp add: wf_descriptor_def nv12_defs)
  have h4: "canExportDrmPrime_r (kernel_ok 42)"
    by (simp add: kernel_ok_def)
  from h1 h2 h3 h4 unmap_exactly_once [OF h1 h2 h3 h4, of "nv12_frame COLORSPACE_REC_709 False"]
  show ?thesis by simp
qed

text \<open>
  C9. When the device has no HDR metadata property, \<open>setHdrMode(true)\<close> writes no
  property and creates no blob: all it does is log one warning, and it leaves the
  renderer as it was. \<open>setHdrMode(false)\<close> then does nothing at all.
\<close>

theorem setHdrMode_unsupported:
  assumes "m_HdrOutputMetadataProp s = None"
  shows "setHdrMode env s True =
           (s, [SDL_Log LogWarn
                  ''HDR_OUTPUT_METADATA is unavailable on this display. Unable to enter HDR mode!''
                  []])
         \<and> setHdrMode env s False = (s, [])"
  using assms by (simp add: setHdrMode_def)

theorem setHdrMode_unsupported_witness:
  "m_HdrOutputMetadataProp (DrmRenderer_new False) = None
   \<and> setHdrMode (kernel_ok 7) (DrmRenderer_new False) True =
       (DrmRenderer_new False,
        [SDL_Log LogWarn
           ''HDR_OUTPUT_METADATA is unavailable on this display. Unable to enter HDR mode!''
           []])
   \<and> setHdrMode (kernel_ok 7) (DrmRenderer_new False) False = (DrmRenderer_new False, [])"
proof -
  have h: "m_HdrOutputMetadataProp (DrmRenderer_new False) = None"
    by (simp add: DrmRenderer_new_def)
  show ?thesis
    using h setHdrMode_unsupported [OF h, of "kernel_ok 7"] by simp
qed



end
